theory Spec2Isabelle
  imports Main "HOL-Library.Sublist" "HOL-Library.Code_Target_Numeral"
begin

section \<open>Python values of a request\<close>

text \<open>
  \<^verbatim>\<open>request.get_json()\<close> hands the handler the parsed body: \<^verbatim>\<open>None\<close>, a bool, an int, a
  float, a str, a list or a dict. A str is the list of its code points (the model has the
  code points below 256). A float is identified by its \<^verbatim>\<open>repr\<close>, the text \<^verbatim>\<open>str\<close> gives
  for it (\<^verbatim>\<open>11.5\<close>, \<^verbatim>\<open>1e+16\<close>, \<^verbatim>\<open>inf\<close>): the handlers only take the truth value and the
  \<^verbatim>\<open>str\<close> of a value. A dict is the list of its items, looked up by key.
\<close>

datatype json =
    JNull
  | JBool bool
  | JInt int
  | JFloat string
  | JStr string
  | JArr "json list"
  | JObj "(string \<times> json) list"

text \<open>The exceptions that occur: those of Python, and what the store raises.\<close>

datatype exn =
    InvalidOperation
  | ValueError
  | TypeError
  | AttributeError
  | IntegrityError
  | OperationalError
  | OverflowError

text \<open>Truth value of a Python object, as \<^verbatim>\<open>not x\<close> tests it.\<close>

fun truthy :: "json \<Rightarrow> bool" where
  "truthy JNull = False"
| "truthy (JBool b) = b"
| "truthy (JInt n) = (n \<noteq> 0)"
| "truthy (JFloat r) = (r \<noteq> ''0.0'' \<and> r \<noteq> ''-0.0'')"
| "truthy (JStr s) = (s \<noteq> [])"
| "truthy (JArr xs) = (xs \<noteq> [])"
| "truthy (JObj kvs) = (kvs \<noteq> [])"

text \<open>
  \<^verbatim>\<open>k in data\<close>: a key of a dict, an element of a list, a substring of a str; any other
  object is not iterable.
\<close>

fun py_in :: "string \<Rightarrow> json \<Rightarrow> exn + bool" where
  "py_in k (JObj kvs) = Inr (map_of kvs k \<noteq> None)"
| "py_in k (JArr xs) = Inr (List.member xs (JStr k))"
| "py_in k (JStr s) = Inr (sublist k s)"
| "py_in k _ = Inl TypeError"

text \<open>
  \<^verbatim>\<open>all(k in data for k in ks)\<close>: the generator stops at the first key that is not in
  \<^verbatim>\<open>data\<close>.
\<close>

fun all_in :: "string list \<Rightarrow> json \<Rightarrow> exn + bool" where
  "all_in [] data = Inr True"
| "all_in (k # ks) data =
     (case py_in k data of
        Inl e \<Rightarrow> Inl e
      | Inr False \<Rightarrow> Inr False
      | Inr True \<Rightarrow> all_in ks data)"

text \<open>\<^verbatim>\<open>data.get(k)\<close>: only a dict has the method.\<close>

fun py_get :: "json \<Rightarrow> string \<Rightarrow> exn + json" where
  "py_get (JObj kvs) k = Inr (case map_of kvs k of None \<Rightarrow> JNull | Some v \<Rightarrow> v)"
| "py_get _ k = Inl AttributeError"

subsection \<open>\<^verbatim>\<open>str\<close> of an int\<close>

definition digit_char :: "nat \<Rightarrow> char" where
  "digit_char d = char_of (48 + d)"

fun str_nat :: "nat \<Rightarrow> string" where
  "str_nat n = (if n < 10 then [digit_char n] else str_nat (n div 10) @ [digit_char (n mod 10)])"

declare str_nat.simps [simp del]

definition str_int :: "int \<Rightarrow> string" where
  "str_int i = (if i < 0 then CHR ''-'' # str_nat (nat (- i)) else str_nat (nat i))"

subsection \<open>\<^verbatim>\<open>decimal.Decimal\<close> of a str\<close>

text \<open>
  A \<^verbatim>\<open>Decimal\<close> is a sign, a coefficient and an exponent, an infinity, or a quiet or
  signaling NaN with its payload.
\<close>

datatype decimal =
    Finite bool nat int
  | Infinity bool
  | NaN bool bool nat

definition is_space :: "char \<Rightarrow> bool" where
  "is_space c = (let n = (of_char c :: nat) in
     (9 \<le> n \<and> n \<le> 13) \<or> (28 \<le> n \<and> n \<le> 32) \<or> n = 133 \<or> n = 160)"

definition is_digit :: "char \<Rightarrow> bool" where
  "is_digit c = (let n = (of_char c :: nat) in 48 \<le> n \<and> n \<le> 57)"

definition lower :: "char \<Rightarrow> char" where
  "lower c = (let n = (of_char c :: nat) in if 65 \<le> n \<and> n \<le> 90 then char_of (n + 32) else c)"

definition strip :: "string \<Rightarrow> string" where
  "strip s = rev (dropWhile is_space (rev (dropWhile is_space s)))"

definition nat_of_digits :: "string \<Rightarrow> nat" where
  "nat_of_digits ds = foldl (\<lambda>n c. 10 * n + (of_char c - 48)) 0 ds"

fun sign_split :: "string \<Rightarrow> bool \<times> string" where
  "sign_split [] = (False, [])"
| "sign_split (c # cs) =
     (if c = CHR ''-'' then (True, cs)
      else if c = CHR ''+'' then (False, cs)
      else (False, c # cs))"

text \<open>
  The exact conversion works in the widest context the library has: the adjusted exponent
  is at most 999999999999999999 and the exponent at least -1999999999999999997.
\<close>

definition finite_decimal :: "bool \<Rightarrow> string \<Rightarrow> int \<Rightarrow> decimal option" where
  "finite_decimal neg ds e =
     (let c = nat_of_digits ds in
      if e + int (length (str_nat c)) - 1 \<le> 999999999999999999 \<and> - 1999999999999999997 \<le> e
      then Some (Finite neg c e) else None)"

text \<open>
  A number: digits with an optional fraction, at least one digit in all, and an optional
  exponent.
\<close>

definition parse_number :: "bool \<Rightarrow> string \<Rightarrow> decimal option" where
  "parse_number neg s =
     (let ip = takeWhile is_digit s;
          r1 = dropWhile is_digit s;
          dot = (r1 \<noteq> [] \<and> hd r1 = CHR ''.'');
          fp = (if dot then takeWhile is_digit (tl r1) else []);
          r2 = (if dot then dropWhile is_digit (tl r1) else r1)
      in if ip = [] \<and> fp = [] then None
         else if r2 = [] then finite_decimal neg (ip @ fp) (- int (length fp))
         else if lower (hd r2) = CHR ''e'' then
           (case sign_split (tl r2) of (eneg, ds) \<Rightarrow>
              if ds \<noteq> [] \<and> list_all is_digit ds
              then finite_decimal neg (ip @ fp)
                     ((if eneg then - int (nat_of_digits ds) else int (nat_of_digits ds))
                        - int (length fp))
              else None)
         else None)"

text \<open>An infinity or a NaN, in any case of the letters; a NaN may carry digits.\<close>

definition parse_special :: "bool \<Rightarrow> string \<Rightarrow> decimal option" where
  "parse_special neg s =
     (let l = map lower s in
      if l = ''inf'' \<or> l = ''infinity'' then Some (Infinity neg)
      else if take 3 l = ''nan'' \<and> list_all is_digit (drop 3 l)
        then Some (NaN neg False (nat_of_digits (drop 3 l)))
      else if take 4 l = ''snan'' \<and> list_all is_digit (drop 4 l)
        then Some (NaN neg True (nat_of_digits (drop 4 l)))
      else None)"

text \<open>
  \<^verbatim>\<open>Decimal(s)\<close> strips the white space around the literal, drops every underscore, and
  reads an optional sign and a number, an infinity or a NaN. A str that is no such literal
  raises \<^verbatim>\<open>decimal.InvalidOperation\<close>, an \<^verbatim>\<open>ArithmeticError\<close>: never a \<^verbatim>\<open>ValueError\<close> or
  a \<^verbatim>\<open>TypeError\<close>.
\<close>

definition Decimal :: "string \<Rightarrow> exn + decimal" where
  "Decimal s =
     (case sign_split (filter (\<lambda>c. c \<noteq> CHR ''_'') (strip s)) of (neg, r) \<Rightarrow>
        (case (if r \<noteq> [] \<and> (is_digit (hd r) \<or> hd r = CHR ''.'')
               then parse_number neg r else parse_special neg r) of
           None \<Rightarrow> Inl InvalidOperation
         | Some d \<Rightarrow> Inr d))"

text \<open>
  \<^verbatim>\<open>Decimal(str(v))\<close>. The \<^verbatim>\<open>str\<close> of a bool is \<^verbatim>\<open>True\<close> or \<^verbatim>\<open>False\<close>, of \<^verbatim>\<open>None\<close> it is
  \<^verbatim>\<open>None\<close>; the \<^verbatim>\<open>str\<close> of a list starts with a bracket and that of a dict with a brace,
  which starts no literal.
\<close>

fun Decimal_str :: "json \<Rightarrow> exn + decimal" where
  "Decimal_str JNull = Decimal ''None''"
| "Decimal_str (JBool b) = Decimal (if b then ''True'' else ''False'')"
| "Decimal_str (JInt n) = Decimal (str_int n)"
| "Decimal_str (JFloat r) = Decimal r"
| "Decimal_str (JStr s) = Decimal s"
| "Decimal_str (JArr xs) = Inl InvalidOperation"
| "Decimal_str (JObj kvs) = Inl InvalidOperation"

section \<open>The store\<close>

text \<open>
  \<^verbatim>\<open>models.py\<close>: the table \<^verbatim>\<open>plants\<close> with the columns \<^verbatim>\<open>id\<close> (Integer, primary key),
  \<^verbatim>\<open>name\<close>, \<^verbatim>\<open>image\<close> (String) and \<^verbatim>\<open>price\<close> (Numeric(10, 2)). A row of the model holds
  the id and the values the handler wrote; what a column gives back for a written value
  is a function of that value, applied when the row is read.
\<close>

record plant =
  plant_id :: int
  plant_name :: json
  plant_image :: json
  plant_price :: decimal

text \<open>
  The store is SQLite (\<^verbatim>\<open>app.config['SQLALCHEMY_DATABASE_URI'] = 'sqlite:///app.db'\<close>). Its
  integers have 64 bits: an id of a row lies in this range, and an id outside of it
  cannot be handed to the store.
\<close>

definition int64 :: "int \<Rightarrow> bool" where
  "int64 k = (- 9223372036854775808 \<le> k \<and> k \<le> 9223372036854775807)"

text \<open>
  What the store does during one request is an input of the model. Each call of the
  store answers, or it raises an exception with a message: an \<^verbatim>\<open>IntegrityError\<close> for a
  violated constraint, any other for a failure of the database. The store also raises
  for a value it does not keep, such as a list as name, or a NaN as price, which is NULL
  to SQLite in a column that admits none: that, too, is its answer.
\<close>

datatype db_answer = Db_ok | Db_raises exn string

text \<open>
  When SQLite has to pick the id of a new row at random (see \<open>assign_id\<close>), it picks an
  id or it gives up, with the message of its error.
\<close>

datatype pick = Picks int | Gives_up string

text \<open>
  The answers of the store to the calls of one request: to the query
  (\<^verbatim>\<open>Plant.query.all()\<close>, \<^verbatim>\<open>Plant.query.get(id)\<close>), to \<^verbatim>\<open>db.session.commit()\<close>, to the read of
  the row of a plant whose attributes the commit has expired, and the id picked at
  random.
\<close>

record answers =
  on_query :: db_answer
  on_commit :: db_answer
  on_reload :: db_answer
  pick_id :: pick

text \<open>A store that answers every call.\<close>

definition healthy :: answers where
  "healthy = \<lparr>on_query = Db_ok, on_commit = Db_ok, on_reload = Db_ok,
     pick_id = Gives_up []\<rparr>"

text \<open>
  \<^verbatim>\<open>Column(Integer, primary_key=True)\<close> is in SQLite an integer primary key without
  \<^verbatim>\<open>AUTOINCREMENT\<close>. A row inserted without an id gets 1 in an empty table, and the largest
  id of the table plus one as long as the largest id is not the largest integer. When it
  is, SQLite picks positive ids at random until it finds one that is not in use, and
  raises an \<^verbatim>\<open>OperationalError\<close> when it gives up. An id in use, or one that is not a
  positive integer of the store, is no pick of SQLite: the model takes it as giving up.
\<close>

definition assign_id :: "pick \<Rightarrow> plant list \<Rightarrow> (exn \<times> string) + int" where
  "assign_id pk rows =
     (if rows = [] then Inr 1
      else if Max (set (map plant_id rows)) < 9223372036854775807
        then Inr (Max (set (map plant_id rows)) + 1)
      else (case pk of
              Gives_up m \<Rightarrow> Inl (OperationalError, m)
            | Picks k \<Rightarrow>
                if 0 < k \<and> k \<le> 9223372036854775807 \<and> \<not> List.member (map plant_id rows) k
                then Inr k else Inl (OperationalError, [])))"

text \<open>
  \<^verbatim>\<open>Plant.query.get(id)\<close>: the row with this primary key, or \<^verbatim>\<open>None\<close>. The store may raise;
  an id that is no integer of the store raises \<^verbatim>\<open>OverflowError\<close> when it is bound to the
  query.
\<close>

definition query_get :: "answers \<Rightarrow> plant list \<Rightarrow> int \<Rightarrow> exn + plant option" where
  "query_get e rows i =
     (case on_query e of
        Db_raises x m \<Rightarrow> Inl x
      | Db_ok \<Rightarrow> if int64 i then Inr (find (\<lambda>p. plant_id p = i) rows) else Inl OverflowError)"

text \<open>
  \<^verbatim>\<open>db.session\<close>: the table as committed, and the changes added to the session and not
  yet committed. A request starts with a session that has no pending change.
\<close>

datatype change = Add json json decimal | Delete int

record session =
  table :: "plant list"
  pending :: "change list"

definition session_begin :: "plant list \<Rightarrow> session" where
  "session_begin rows = \<lparr>table = rows, pending = []\<rparr>"

definition session_add :: "json \<Rightarrow> json \<Rightarrow> decimal \<Rightarrow> session \<Rightarrow> session" where
  "session_add n i d s = s\<lparr>pending := pending s @ [Add n i d]\<rparr>"

definition session_delete :: "plant \<Rightarrow> session \<Rightarrow> session" where
  "session_delete p s = s\<lparr>pending := pending s @ [Delete (plant_id p)]\<rparr>"

text \<open>The flush writes the pending changes in their order, and stops where the store raises.\<close>

fun flush :: "pick \<Rightarrow> change list \<Rightarrow> plant list \<Rightarrow> (exn \<times> string) + plant list" where
  "flush pk [] rows = Inr rows"
| "flush pk (Add n i d # cs) rows =
     (case assign_id pk rows of
        Inl err \<Rightarrow> Inl err
      | Inr k \<Rightarrow>
          flush pk cs
            (rows @ [\<lparr>plant_id = k, plant_name = n, plant_image = i, plant_price = d\<rparr>]))"
| "flush pk (Delete k # cs) rows = flush pk cs (filter (\<lambda>p. plant_id p \<noteq> k) rows)"

text \<open>
  \<^verbatim>\<open>db.session.commit()\<close> flushes and commits. When it raises, the table is as before and
  the session keeps its pending changes.
\<close>

definition session_commit :: "answers \<Rightarrow> session \<Rightarrow> (exn \<times> string) + session" where
  "session_commit e s =
     (case flush (pick_id e) (pending s) (table s) of
        Inl err \<Rightarrow> Inl err
      | Inr rows \<Rightarrow>
          (case on_commit e of
             Db_ok \<Rightarrow> Inr \<lparr>table = rows, pending = []\<rparr>
           | Db_raises x m \<Rightarrow> Inl (x, m)))"

definition session_rollback :: "session \<Rightarrow> session" where
  "session_rollback s = s\<lparr>pending := []\<rparr>"

subsection \<open>The price column\<close>

text \<open>
  SQLite has no decimal type. SQLAlchemy's \<^verbatim>\<open>Numeric\<close> binds a \<^verbatim>\<open>Decimal\<close> as \<^verbatim>\<open>float(d)\<close>,
  the nearest binary double, and reads the column back as \<^verbatim>\<open>Decimal('%.2f' % x)\<close>, the
  double rounded to the scale of the column; \<^verbatim>\<open>to_dict\<close> renders that \<^verbatim>\<open>Decimal\<close> as a str.
  The doubles are modelled exactly, as a mantissa and a binary exponent.
\<close>

text \<open>The number of bits of a natural number.\<close>

fun bit_length :: "nat \<Rightarrow> nat" where
  "bit_length n = (if n = 0 then 0 else Suc (bit_length (n div 2)))"

declare bit_length.simps [simp del]

text \<open>The quotient of \<open>a\<close> by \<open>b\<close> rounded to the nearest integer, a tie to the even one.\<close>

definition round_half_even :: "nat \<Rightarrow> nat \<Rightarrow> nat" where
  "round_half_even a b =
     (let q = a div b; r = a mod b in
      if 2 * r < b then q
      else if b < 2 * r then q + 1
      else if even q then q else q + 1)"

text \<open>The quotient of \<open>a\<close> by \<open>b\<close> in units of \<open>2\<^sup>t\<close>, rounded.\<close>

definition scaled :: "nat \<Rightarrow> nat \<Rightarrow> int \<Rightarrow> nat" where
  "scaled a b t =
     (if 0 \<le> t then round_half_even a (b * 2 ^ nat t) else round_half_even (a * 2 ^ nat (- t)) b)"

text \<open>
  The double nearest to the quotient of \<open>a\<close> by \<open>b\<close>, both positive: a mantissa \<open>m\<close>, at
  most \<open>2\<^sup>5\<^sup>3\<close>, and an exponent \<open>t\<close>, not below -1074, for the value \<open>m\<close> times \<open>2\<^sup>t\<close>.
  Here \<open>k\<close> is the integer part of the binary logarithm of the quotient.
\<close>

definition to_double :: "nat \<Rightarrow> nat \<Rightarrow> nat \<times> int" where
  "to_double a b =
     (let k0 = int (bit_length a) - int (bit_length b);
          k = (if (if 0 \<le> k0 then b * 2 ^ nat k0 \<le> a else b \<le> a * 2 ^ nat (- k0))
               then k0 else k0 - 1);
          t = max (k - 52) (- 1074)
      in (scaled a b t, t))"

text \<open>A value of \<open>2\<^sup>1\<^sup>0\<^sup>2\<^sup>4\<close> or more is an infinity.\<close>

definition overflows :: "nat \<times> int \<Rightarrow> bool" where
  "overflows x = (case x of (m, t) \<Rightarrow> 971 < t \<or> (t = 971 \<and> m = 2 ^ 53))"

text \<open>\<^verbatim>\<open>float(d)\<close> for a finite \<^verbatim>\<open>Decimal\<close> with coefficient \<open>c > 0\<close> and exponent \<open>e\<close>.\<close>

definition float_of :: "nat \<Rightarrow> int \<Rightarrow> nat \<times> int" where
  "float_of c e = (if 0 \<le> e then to_double (c * 10 ^ nat e) 1 else to_double c (10 ^ nat (- e)))"

text \<open>\<^verbatim>\<open>'%.2f' % x\<close> for a double that is not zero, given by its sign, mantissa and exponent.\<close>

definition format_2f :: "bool \<Rightarrow> nat \<times> int \<Rightarrow> string" where
  "format_2f neg x =
     (case x of (m, t) \<Rightarrow>
        (let h = (if 0 \<le> t then m * 2 ^ nat t * 100 else round_half_even (m * 100) (2 ^ nat (- t)))
         in (if neg then ''-'' else []) @ str_nat (h div 100) @ ''.'' @
            [digit_char (h mod 100 div 10), digit_char (h mod 10)]))"

text \<open>
  The text of the price that was written as \<open>d\<close>. SQLite keeps a zero of either sign as
  the integer 0. A NaN has no text: SQLite takes it for NULL, which the column does not
  admit.
\<close>

definition numeric_text :: "decimal \<Rightarrow> string option" where
  "numeric_text d =
     (case d of
        Finite neg c e \<Rightarrow>
          (if c = 0 then Some ''0.00''
           else let x = float_of c e in
             if overflows x then Some (if neg then ''-Infinity'' else ''Infinity'')
             else if fst x = 0 then Some ''0.00''
             else Some (format_2f neg x))
      | Infinity neg \<Rightarrow> Some (if neg then ''-Infinity'' else ''Infinity'')
      | NaN neg signaling payload \<Rightarrow> None)"

text \<open>The prices that a double holds as a finite number.\<close>

definition in_double_range :: "decimal \<Rightarrow> bool" where
  "in_double_range d =
     (case d of
        Finite neg c e \<Rightarrow> (if c = 0 then True else \<not> overflows (float_of c e))
      | Infinity neg \<Rightarrow> False
      | NaN neg signaling payload \<Rightarrow> False)"

text \<open>A text with exactly two fractional digits: an optional sign, digits, a point, two digits.\<close>

definition two_decimals :: "string \<Rightarrow> bool" where
  "two_decimals s =
     (case rev s of
        d2 # d1 # dot # ip \<Rightarrow>
          is_digit d2 \<and> is_digit d1 \<and> dot = CHR ''.'' \<and>
          (case rev ip of
             [] \<Rightarrow> False
           | c # cs \<Rightarrow> if c = CHR ''-'' then cs \<noteq> [] \<and> list_all is_digit cs
                       else list_all is_digit (c # cs))
      | _ \<Rightarrow> False)"

section \<open>Responses\<close>

text \<open>
  A cell of a response body is a JSON value, or what a \<^verbatim>\<open>String\<close> column gives back for a
  written value that is not a str: SQLite turns it into text by its own rules, which are
  left uninterpreted.
\<close>

datatype cell = Plain json | String_col json

datatype body = Object "(string \<times> cell) list" | Array "(string \<times> cell) list list"

record response =
  status :: nat
  content :: body

definition make_response :: "body \<Rightarrow> nat \<Rightarrow> response" where
  "make_response b code = \<lparr>status = code, content = b\<rparr>"

text \<open>A str comes back from a \<^verbatim>\<open>String\<close> column as it was written.\<close>

fun string_cell :: "json \<Rightarrow> cell" where
  "string_cell (JStr s) = Plain (JStr s)"
| "string_cell v = String_col v"

text \<open>The price comes back as the text of its column; no row holds a NaN.\<close>

definition numeric_cell :: "decimal \<Rightarrow> cell" where
  "numeric_cell d = (case numeric_text d of None \<Rightarrow> Plain JNull | Some s \<Rightarrow> Plain (JStr s))"

text \<open>
  \<^verbatim>\<open>plant.to_dict()\<close> of \<^verbatim>\<open>SerializerMixin\<close>: every column, keys in the order of \<^verbatim>\<open>jsonify\<close>.
  The columns are read from the store, also for a plant that was just committed: the
  commit expires its attributes.
\<close>

definition to_dict :: "plant \<Rightarrow> (string \<times> cell) list" where
  "to_dict p =
     [(''id'', Plain (JInt (plant_id p))),
      (''image'', string_cell (plant_image p)),
      (''name'', string_cell (plant_name p)),
      (''price'', numeric_cell (plant_price p))]"

text \<open>
  The error handlers are registered for Flask, which calls them with an exception; the
  routes call them with a str, and then \<^verbatim>\<open>isinstance(error, Exception)\<close> is false.
\<close>

datatype error_arg = Str string | Exception string

definition not_found :: "error_arg \<Rightarrow> response" where
  "not_found error =
     (let message = (case error of Exception m \<Rightarrow> m | Str m \<Rightarrow> ''Resource not found'')
      in make_response (Object [(''error'', Plain (JStr message))]) 404)"

definition bad_request :: "error_arg \<Rightarrow> response" where
  "bad_request error =
     (let message = (case error of Exception m \<Rightarrow> m | Str m \<Rightarrow> ''Bad Request'')
      in make_response (Object [(''error'', Plain (JStr message))]) 400)"

definition internal_server_error :: "error_arg \<Rightarrow> response" where
  "internal_server_error error =
     (let message = (case error of Exception m \<Rightarrow> m | Str m \<Rightarrow> ''Internal Server Error'')
      in make_response (Object [(''error'', Plain (JStr message))]) 500)"

section \<open>The routes of \<^verbatim>\<open>app.py\<close>\<close>

text \<open>
  A handler takes the answers of the store and the table as the request finds it, and
  returns the response, or the exception it lets escape (Flask then answers 500), with
  the session as the handler leaves it. A body that is no JSON does not reach
  \<^verbatim>\<open>create_plant\<close>: \<^verbatim>\<open>get_json\<close> raises and Flask answers. The ids of the routes come from
  Flask's \<^verbatim>\<open>int\<close> converter, which passes no negative number; the handlers are modelled
  for every integer.

  \<^verbatim>\<open>to_dict\<close> of a plant that a query has just loaded reads nothing from the store and
  raises nothing here, so that the \<^verbatim>\<open>except\<close> branch of \<^verbatim>\<open>get_plant_by_id\<close> is never
  entered. \<^verbatim>\<open>to_dict\<close> of a plant that was just committed reads its row again, and the
  store may raise there.
\<close>

text \<open>\<^verbatim>\<open>GET /plants\<close>\<close>

definition get_plants :: "answers \<Rightarrow> plant list \<Rightarrow> (exn + response) \<times> session" where
  "get_plants e rows =
     (let s = session_begin rows in
      case on_query e of
        Db_ok \<Rightarrow> (Inr (make_response (Array (map to_dict (table s))) 200), s)
      | Db_raises x m \<Rightarrow> (Inr (internal_server_error (Str m)), session_rollback s))"

text \<open>\<^verbatim>\<open>GET /plants/<int:id>\<close>; the query stands outside of the \<^verbatim>\<open>try\<close>.\<close>

definition get_plant_by_id :: "answers \<Rightarrow> int \<Rightarrow> plant list \<Rightarrow> (exn + response) \<times> session" where
  "get_plant_by_id e i rows =
     (let s = session_begin rows in
      case query_get e (table s) i of
        Inl x \<Rightarrow> (Inl x, s)
      | Inr None \<Rightarrow>
          (Inr (not_found (Str (''Plant with id '' @ str_int i @ '' not found''))), s)
      | Inr (Some plant) \<Rightarrow> (Inr (make_response (Object (to_dict plant)) 200), s))"

definition quoted :: "string \<Rightarrow> string" where
  "quoted s = CHR 0x27 # s @ [CHR 0x27]"

text \<open>
  \<^verbatim>\<open>POST /plants\<close>. After the commit \<^verbatim>\<open>new_plant\<close> is the row the flush wrote for it, the
  last of the table, and \<^verbatim>\<open>new_plant.to_dict()\<close>, inside the same \<^verbatim>\<open>try\<close>, reads it from
  the store: when that read raises, the handler rolls back and answers with an error,
  and the row stays committed.
\<close>

definition create_plant :: "answers \<Rightarrow> json \<Rightarrow> plant list \<Rightarrow> (exn + response) \<times> session" where
  "create_plant e data rows =
     (let s = session_begin rows;
          missing = bad_request (Str (''Missing required fields: '' @ quoted ''name'' @ '', ''
            @ quoted ''image'' @ '', and '' @ quoted ''price''));
          integrity = bad_request (Str ''Failed to create plant due to data integrity issue.'')
      in
      if truthy data then
        (case all_in [''name'', ''image'', ''price''] data of
           Inl x \<Rightarrow> (Inl x, s)
         | Inr False \<Rightarrow> (Inr missing, s)
         | Inr True \<Rightarrow>
            (case py_get data ''name'' of
               Inl x \<Rightarrow> (Inl x, s)
             | Inr name \<Rightarrow>
            (case py_get data ''image'' of
               Inl x \<Rightarrow> (Inl x, s)
             | Inr image' \<Rightarrow>
            (case py_get data ''price'' of
               Inl x \<Rightarrow> (Inl x, s)
             | Inr price_str \<Rightarrow>
                if truthy name \<and> truthy image' \<and> price_str \<noteq> JNull then
                  (case Decimal_str price_str of
                     Inl x \<Rightarrow>
                       if x = ValueError \<or> x = TypeError
                       then (Inr (bad_request (Str ''Price must be a valid number.'')), s)
                       else (Inl x, s)
                   | Inr price \<Rightarrow>
                       (let s1 = session_add name image' price s in
                        case session_commit e s1 of
                          Inl (x, m) \<Rightarrow>
                            if x = IntegrityError
                            then (Inr integrity, session_rollback s1)
                            else (Inr (internal_server_error (Str m)), session_rollback s1)
                        | Inr s2 \<Rightarrow>
                            (case on_reload e of
                               Db_ok \<Rightarrow>
                                 (Inr (make_response (Object (to_dict (last (table s2)))) 201),
                                  s2)
                             | Db_raises x m \<Rightarrow>
                                 if x = IntegrityError
                                 then (Inr integrity, session_rollback s2)
                                 else (Inr (internal_server_error (Str m)),
                                       session_rollback s2))))
                else (Inr (bad_request (Str ''Name, image, and price cannot be empty.'')), s)))))
      else (Inr missing, s))"

text \<open>\<^verbatim>\<open>DELETE /plants/<int:id>\<close>; the query stands outside of the \<^verbatim>\<open>try\<close>.\<close>

definition delete_plant :: "answers \<Rightarrow> int \<Rightarrow> plant list \<Rightarrow> (exn + response) \<times> session" where
  "delete_plant e i rows =
     (let s = session_begin rows in
      case query_get e (table s) i of
        Inl x \<Rightarrow> (Inl x, s)
      | Inr None \<Rightarrow>
          (Inr (not_found (Str (''Plant with id '' @ str_int i @ '' not found''))), s)
      | Inr (Some plant) \<Rightarrow>
          (let s1 = session_delete plant s in
           case session_commit e s1 of
             Inr s2 \<Rightarrow>
               (Inr (make_response
                  (Object [(''message'',
                     Plain (JStr (''Plant with id '' @ str_int i @ '' successfully deleted'')))])
                  200), s2)
           | Inl (x, m) \<Rightarrow> (Inr (internal_server_error (Str m)), session_rollback s1)))"

section \<open>Sequences of requests\<close>

text \<open>
  A request, with the answers of the store during it. The session ends with the request:
  the next request finds the table as it was last committed.
\<close>

datatype request =
    GET_plants answers
  | GET_plant answers int
  | POST_plants answers json
  | DELETE_plant answers int

fun handle :: "request \<Rightarrow> plant list \<Rightarrow> (exn + response) \<times> session" where
  "handle (GET_plants e) rows = get_plants e rows"
| "handle (GET_plant e i) rows = get_plant_by_id e i rows"
| "handle (POST_plants e data) rows = create_plant e data rows"
| "handle (DELETE_plant e i) rows = delete_plant e i rows"

fun run :: "request list \<Rightarrow> plant list \<Rightarrow> (request \<times> (exn + response)) list \<times> plant list" where
  "run [] rows = ([], rows)"
| "run (rq # rqs) rows =
     (case handle rq rows of (r, s) \<Rightarrow>
        (case run rqs (table s) of (log, rows') \<Rightarrow> ((rq, r) # log, rows')))"

text \<open>The ids that a table has and another has not.\<close>

definition new_ids :: "plant list \<Rightarrow> plant list \<Rightarrow> int list" where
  "new_ids rows rows' =
     filter (\<lambda>k. \<not> List.member (map plant_id rows) k) (map plant_id rows')"

text \<open>The ids the store assigned to new rows in a run, whatever the responses were.\<close>

fun assigned_ids :: "request list \<Rightarrow> plant list \<Rightarrow> int list" where
  "assigned_ids [] rows = []"
| "assigned_ids (rq # rqs) rows =
     new_ids rows (table (snd (handle rq rows)))
       @ assigned_ids rqs (table (snd (handle rq rows)))"

text \<open>The answer of the store to the read of a committed plant, for a create.\<close>

fun reload_of :: "request \<Rightarrow> db_answer" where
  "reload_of (POST_plants e data) = on_reload e"
| "reload_of rq = Db_ok"

text \<open>The id in the body of a response.\<close>

definition response_id :: "response \<Rightarrow> int option" where
  "response_id r =
     (case content r of
        Object kvs \<Rightarrow> (case map_of kvs ''id'' of Some (Plain (JInt k)) \<Rightarrow> Some k | _ \<Rightarrow> None)
      | Array xs \<Rightarrow> None)"

text \<open>The price in the body of a response.\<close>

definition response_price :: "response \<Rightarrow> cell option" where
  "response_price r = (case content r of Object kvs \<Rightarrow> map_of kvs ''price'' | Array xs \<Rightarrow> None)"

text \<open>A create that succeeded is a POST answered 201, a delete that succeeded a DELETE answered 200.\<close>

fun created :: "request \<times> (exn + response) \<Rightarrow> bool" where
  "created (POST_plants e data, Inr r) = (status r = 201)"
| "created _ = False"

fun deleted :: "request \<times> (exn + response) \<Rightarrow> bool" where
  "deleted (DELETE_plant e i, Inr r) = (status r = 200)"
| "deleted _ = False"

text \<open>A request succeeded when it got a response with a status below 400.\<close>

fun succeeded :: "exn + response \<Rightarrow> bool" where
  "succeeded (Inl x) = False"
| "succeeded (Inr r) = (status r < 400)"

text \<open>The statuses of the responses of a run; 0 stands for an exception that escaped.\<close>

fun status_of :: "request \<times> (exn + response) \<Rightarrow> nat" where
  "status_of (rq, Inl x) = 0"
| "status_of (rq, Inr r) = status r"

definition statuses :: "(request \<times> (exn + response)) list \<Rightarrow> nat list" where
  "statuses log = map status_of log"

text \<open>The ids in the 201 responses of a run, in the order of the creates.\<close>

definition created_ids :: "(request \<times> (exn + response)) list \<Rightarrow> int list" where
  "created_ids log =
     concat (map (\<lambda>(rq, r). case r of Inl x \<Rightarrow> [] | Inr resp \<Rightarrow>
        (case response_id resp of None \<Rightarrow> [] | Some k \<Rightarrow> [k])) (filter created log))"

text \<open>The number of records \<^verbatim>\<open>GET /plants\<close> returns when the store answers.\<close>

definition list_count :: "plant list \<Rightarrow> nat" where
  "list_count rows =
     (case fst (get_plants healthy rows) of
        Inl x \<Rightarrow> 0
      | Inr r \<Rightarrow> (case content r of Array xs \<Rightarrow> length xs | Object kvs \<Rightarrow> 0))"

text \<open>The rows of \<^verbatim>\<open>seed.py\<close>, and bodies and answers used as examples.\<close>

definition aloe :: plant where
  "aloe = \<lparr>plant_id = 1, plant_name = JStr ''Aloe'', plant_image = JStr ''./images/aloe.jpg'',
     plant_price = Finite False 1150 (- 2)\<rparr>"

definition zz_plant :: plant where
  "zz_plant = \<lparr>plant_id = 2, plant_name = JStr ''ZZ Plant'',
     plant_image = JStr ''./images/zz-plant.jpg'', plant_price = Finite False 2598 (- 2)\<rparr>"

definition payload :: "json \<Rightarrow> json \<Rightarrow> json \<Rightarrow> json" where
  "payload n i p = JObj [(''name'', n), (''image'', i), (''price'', p)]"

definition fern :: json where
  "fern = payload (JStr ''Fern'') (JStr ''./images/fern.jpg'') (JInt 9)"

definition locked :: db_answer where
  "locked = Db_raises OperationalError ''database is locked''"

text \<open>A table the store holds: the ids are distinct integers of the store.\<close>

definition stored :: "plant list \<Rightarrow> bool" where
  "stored rows = (distinct (map plant_id rows) \<and> list_all int64 (map plant_id rows))"

section \<open>Validation of a create request\<close>

lemma all_in_dict:
  "all_in [a, b, c] (JObj kvs) =
     Inr (map_of kvs a \<noteq> None \<and> map_of kvs b \<noteq> None \<and> map_of kvs c \<noteq> None)"
  by (simp split: bool.splits)

lemma create_plant_lacking:
  "all_in [''name'', ''image'', ''price''] data = Inr False \<Longrightarrow>
   create_plant e data rows =
     (Inr (bad_request (Str (''Missing required fields: '' @ quoted ''name'' @ '', ''
            @ quoted ''image'' @ '', and '' @ quoted ''price''))), session_begin rows)"
  by (simp add: create_plant_def Let_def del: all_in.simps)

text \<open>
  C1. A create request with name, image and a price that is no decimal literal should be
  answered 400 with the error \<^verbatim>\<open>Price must be a valid number.\<close> and persist nothing. The
  handler persists nothing, but it answers no 400: \<^verbatim>\<open>Decimal\<close> raises
  \<^verbatim>\<open>InvalidOperation\<close>, which \<^verbatim>\<open>except (ValueError, TypeError)\<close> does not catch, and the
  exception leaves the handler, whatever the store would answer.
\<close>

theorem create_plant_price_abc_escapes:
  "create_plant e (payload (JStr ''Aloe'') (JStr ''./images/aloe.jpg'') (JStr ''abc'')) rows
     = (Inl InvalidOperation, \<lparr>table = rows, pending = []\<rparr>)"
  by (simp add: create_plant_def payload_def session_begin_def Decimal_def strip_def
      is_space_def is_digit_def parse_special_def lower_def)

text \<open>
  C4. A create request whose body lacks one of the keys name, image and price should be
  answered 400 and leave the persisted state unchanged. The body \<^verbatim>\<open>5\<close> is valid JSON and
  lacks the three keys. The table is left as it is, but the request is answered no 400:
  \<^verbatim>\<open>k in data\<close> raises \<^verbatim>\<open>TypeError\<close> for a number, outside of any \<^verbatim>\<open>try\<close>, and the exception
  leaves the handler. A list of the three names passes the test of the keys, and then
  \<^verbatim>\<open>data.get\<close> raises \<^verbatim>\<open>AttributeError\<close>.
\<close>

theorem create_plant_number_body_escapes:
  "create_plant e (JInt 5) rows = (Inl TypeError, \<lparr>table = rows, pending = []\<rparr>)
   \<and> create_plant e (JArr [JStr ''name'', JStr ''image'', JStr ''price'']) rows
       = (Inl AttributeError, \<lparr>table = rows, pending = []\<rparr>)"
  by (simp add: create_plant_def session_begin_def)

text \<open>
  For a body that is a JSON object the handler refuses as the spec says: when the object
  lacks one of the keys name, image and price, or its name or image is falsy, the request
  is answered 400, whatever the store would answer; the session has no pending change,
  the table is the one the request found, and \<^verbatim>\<open>GET /plants\<close> lists as many records as
  before.
\<close>

theorem create_plant_rejects_incomplete:
  assumes "(k \<in> {''name'', ''image'', ''price''} \<and> map_of kvs k = None)
         \<or> (k \<in> {''name'', ''image''} \<and> map_of kvs k = Some v \<and> \<not> truthy v)"
  shows "\<exists>r. create_plant e (JObj kvs) rows = (Inr r, \<lparr>table = rows, pending = []\<rparr>)
           \<and> status r = 400
           \<and> list_count (table (snd (create_plant e (JObj kvs) rows))) = list_count rows"
  using assms
  unfolding create_plant_def Let_def all_in_dict session_begin_def
  by (auto simp: bad_request_def make_response_def split: option.splits bool.splits)

theorem create_plant_rejects_incomplete_witness:
  "map_of [(''name'', JStr []), (''image'', JStr ''./images/aloe.jpg''), (''price'', JInt 5)]
     ''name'' = Some (JStr [])
   \<and> \<not> truthy (JStr [])
   \<and> (\<exists>r. create_plant healthy
          (JObj [(''name'', JStr []), (''image'', JStr ''./images/aloe.jpg''), (''price'', JInt 5)])
          [aloe] = (Inr r, \<lparr>table = [aloe], pending = []\<rparr>)
        \<and> status r = 400
        \<and> list_count (table (snd (create_plant healthy
          (JObj [(''name'', JStr []), (''image'', JStr ''./images/aloe.jpg''), (''price'', JInt 5)])
          [aloe]))) = list_count [aloe])"
  using create_plant_rejects_incomplete [of "''name''"
      "[(''name'', JStr []), (''image'', JStr ''./images/aloe.jpg''), (''price'', JInt 5)]"
      "JStr []" healthy "[aloe]"]
  by simp

text \<open>
  C6. For an id that no record has, \<^verbatim>\<open>GET /plants/{id}\<close> and \<^verbatim>\<open>DELETE /plants/{id}\<close>
  should answer 404 with the error \<^verbatim>\<open>Plant with id {id} not found\<close>. When the store answers
  the lookup, both answer 404 and leave the table as it is, but the error in the body is
  \<^verbatim>\<open>Resource not found\<close>: the routes hand \<^verbatim>\<open>not_found\<close> the message as a str, and
  \<^verbatim>\<open>not_found\<close> keeps the message of an exception only.
\<close>

theorem not_found_drops_message:
  "get_plant_by_id (e\<lparr>on_query := Db_ok\<rparr>) 1 [] =
     (Inr \<lparr>status = 404, content = Object [(''error'', Plain (JStr ''Resource not found''))]\<rparr>,
      \<lparr>table = [], pending = []\<rparr>)
   \<and> delete_plant (e\<lparr>on_query := Db_ok\<rparr>) 1 [] =
     (Inr \<lparr>status = 404, content = Object [(''error'', Plain (JStr ''Resource not found''))]\<rparr>,
      \<lparr>table = [], pending = []\<rparr>)"
  by (simp add: get_plant_by_id_def delete_plant_def session_begin_def query_get_def
      not_found_def make_response_def int64_def)

text \<open>
  C10. Two create requests whose bodies agree on name, image and price (each the same
  value in both, or absent in both) get the same response and leave the same session and
  table, whatever other keys the bodies have and whatever the store answers to both.
\<close>

theorem create_plant_ignores_other_keys:
  assumes "map_of d1 ''name'' = map_of d2 ''name''"
    and "map_of d1 ''image'' = map_of d2 ''image''"
    and "map_of d1 ''price'' = map_of d2 ''price''"
  shows "create_plant e (JObj d1) rows = create_plant e (JObj d2) rows"
proof -
  have g: "py_get (JObj d1) ''name'' = py_get (JObj d2) ''name''"
    "py_get (JObj d1) ''image'' = py_get (JObj d2) ''image''"
    "py_get (JObj d1) ''price'' = py_get (JObj d2) ''price''"
    using assms by simp_all
  have a: "all_in [''name'', ''image'', ''price''] (JObj d1)
         = all_in [''name'', ''image'', ''price''] (JObj d2)"
    unfolding all_in_dict using assms by simp
  have l: "all_in [''name'', ''image'', ''price''] (JObj d) = Inr False" if "d = []" for d
    unfolding all_in_dict using that by simp
  show ?thesis
  proof (cases "truthy (JObj d1) = truthy (JObj d2)")
    case True
    then show ?thesis
      unfolding create_plant_def a g by (simp only:)
  next
    case False
    then have "d1 = [] \<or> d2 = []"
      by auto
    then have "all_in [''name'', ''image'', ''price''] (JObj d2) = Inr False"
      using l[of d1] l[of d2] a by auto
    then show ?thesis
      using a by (simp add: create_plant_lacking)
  qed
qed

theorem create_plant_ignores_other_keys_witness:
  "create_plant healthy
     (JObj [(''name'', JStr ''Aloe''), (''image'', JStr ''./images/aloe.jpg''),
            (''price'', JStr ''11.50'')]) []
   = create_plant healthy
     (JObj [(''admin'', JBool True), (''name'', JStr ''Aloe''), (''id'', JInt 7),
            (''image'', JStr ''./images/aloe.jpg''), (''price'', JStr ''11.50'')]) []"
  using create_plant_ignores_other_keys [of
      "[(''name'', JStr ''Aloe''), (''image'', JStr ''./images/aloe.jpg''),
        (''price'', JStr ''11.50'')]"
      "[(''admin'', JBool True), (''name'', JStr ''Aloe''), (''id'', JInt 7),
        (''image'', JStr ''./images/aloe.jpg''), (''price'', JStr ''11.50'')]" healthy "[]"]
  by simp

section \<open>The table under a request\<close>

lemma assign_id_fresh:
  assumes "assign_id pk rows = Inr k"
  shows "k \<notin> set (map plant_id rows)"
proof (cases "rows = []")
  case True
  then show ?thesis by simp
next
  case False
  have le: "j \<le> Max (set (map plant_id rows))" if "j \<in> set (map plant_id rows)" for j
    using that by (intro Max_ge) auto
  show ?thesis
  proof (cases "Max (set (map plant_id rows)) < 9223372036854775807")
    case True
    then have "k = Max (set (map plant_id rows)) + 1"
      using assms False by (simp add: assign_id_def)
    then show ?thesis
      using le by fastforce
  next
    case big: False
    then show ?thesis
      using assms False
      by (auto simp: assign_id_def split: pick.splits if_splits)
  qed
qed

lemma assign_id_next:
  assumes "assign_id pk rows = Inr k"
  shows "if rows = [] then k = 1
         else if Max (set (map plant_id rows)) < 9223372036854775807
           then k = Max (set (map plant_id rows)) + 1
         else pk = Picks k \<and> 0 < k"
  using assms by (auto simp: assign_id_def split: pick.splits if_splits)

lemma assign_id_int64:
  assumes "assign_id pk rows = Inr k" and "list_all int64 (map plant_id rows)"
  shows "int64 k"
proof (cases "rows = []")
  case True
  then show ?thesis
    using assms by (simp add: assign_id_def int64_def)
next
  case False
  define m where "m = Max (set (map plant_id rows))"
  have "m \<in> set (map plant_id rows)"
    unfolding m_def using False by (intro Max_in) auto
  then have m: "int64 m"
    using assms(2) unfolding list_all_iff by blast
  have "assign_id pk rows =
      (if m < 9223372036854775807 then Inr (m + 1)
       else (case pk of
              Gives_up t \<Rightarrow> Inl (OperationalError, t)
            | Picks j \<Rightarrow>
                if 0 < j \<and> j \<le> 9223372036854775807 \<and> \<not> List.member (map plant_id rows) j
                then Inr j else Inl (OperationalError, [])))"
    using False unfolding assign_id_def m_def by simp
  then show ?thesis
    using assms(1) m by (auto simp: int64_def split: pick.splits if_splits)
qed

lemma find_app:
  "find P (xs @ ys) = (case find P xs of None \<Rightarrow> find P ys | Some x \<Rightarrow> Some x)"
  by (induction xs) auto

lemma query_get_None:
  "query_get e rows i = Inr None \<longleftrightarrow>
     on_query e = Db_ok \<and> int64 i \<and> i \<notin> set (map plant_id rows)"
  by (auto simp: query_get_def find_None_iff split: db_answer.splits)

lemma query_get_Some:
  "query_get e rows i = Inr (Some p) \<Longrightarrow>
     on_query e = Db_ok \<and> int64 i \<and> p \<in> set rows \<and> plant_id p = i
     \<and> find (\<lambda>q. plant_id q = i) rows = Some p"
  by (auto simp: query_get_def find_Some_iff split: db_answer.splits if_splits)

lemma Decimal_None: "Decimal ''None'' = Inl InvalidOperation"
  by code_simp

text \<open>
  A create either has its row committed, under the id the store assigned, and is then
  answered 201 unless the read of the row raised; or it is not answered with success and
  leaves the table and the session as it found them.
\<close>

lemma create_plant_cases:
  assumes "create_plant e data rows = (r, s)"
  shows "(\<exists>n i d k. on_commit e = Db_ok \<and> assign_id (pick_id e) rows = Inr k
            \<and> s = \<lparr>table = rows @ [\<lparr>plant_id = k, plant_name = n, plant_image = i,
                     plant_price = d\<rparr>], pending = []\<rparr>
            \<and> (if on_reload e = Db_ok
                then r = Inr (make_response (Object (to_dict
                   \<lparr>plant_id = k, plant_name = n, plant_image = i, plant_price = d\<rparr>)) 201)
                else \<not> succeeded r))
       \<or> (\<not> succeeded r \<and> s = \<lparr>table = rows, pending = []\<rparr>)"
  using assms
  unfolding create_plant_def Let_def session_begin_def session_add_def session_commit_def
    session_rollback_def
  by (auto simp: bad_request_def internal_server_error_def make_response_def
      split: if_splits sum.splits bool.splits db_answer.splits prod.splits simp del: all_in.simps)

text \<open>
  A delete either commits the removal of the rows with the id and answers 200, or it is
  not answered with success and leaves the table and the session as it found them.
\<close>

lemma delete_plant_cases:
  assumes "delete_plant e i rows = (r, s)"
  shows "(on_query e = Db_ok \<and> on_commit e = Db_ok \<and> int64 i \<and> i \<in> set (map plant_id rows)
            \<and> r = Inr (make_response (Object [(''message'',
                     Plain (JStr (''Plant with id '' @ str_int i @ '' successfully deleted'')))]) 200)
            \<and> s = \<lparr>table = filter (\<lambda>p. plant_id p \<noteq> i) rows, pending = []\<rparr>)
       \<or> (\<not> succeeded r \<and> s = \<lparr>table = rows, pending = []\<rparr>)"
proof (cases "query_get e rows i")
  case (Inl x)
  then show ?thesis
    using assms by (auto simp: delete_plant_def session_begin_def)
next
  case (Inr found)
  show ?thesis
  proof (cases found)
    case None
    then show ?thesis
      using assms Inr
      by (auto simp: delete_plant_def session_begin_def not_found_def make_response_def)
  next
    case (Some p)
    then show ?thesis
      using assms Inr query_get_Some[of e rows i p]
      unfolding delete_plant_def Let_def session_begin_def session_delete_def
        session_commit_def session_rollback_def
      by (auto simp: internal_server_error_def make_response_def
          split: db_answer.splits)
  qed
qed

lemma handle_reads:
  "handle (GET_plants e) rows = (r, s) \<Longrightarrow> table s = rows"
  "handle (GET_plant e i) rows = (r, s) \<Longrightarrow> table s = rows"
  by (auto simp: get_plants_def get_plant_by_id_def session_begin_def session_rollback_def Let_def
      split: db_answer.splits option.splits sum.splits)

lemma length_filter_distinct:
  "distinct (map f xs) \<Longrightarrow> k \<in> set (map f xs) \<Longrightarrow>
   Suc (length (filter (\<lambda>p. f p \<noteq> k) xs)) = length xs"
proof (induction xs)
  case Nil
  then show ?case by simp
next
  case (Cons x xs)
  show ?case
  proof (cases "f x = k")
    case True
    then have "k \<notin> set (map f xs)"
      using Cons.prems by auto
    then have "filter (\<lambda>p. f p \<noteq> k) xs = xs"
      by (auto intro: filter_True)
    then show ?thesis
      using True by simp
  next
    case False
    then show ?thesis
      using Cons by auto
  qed
qed

lemma list_count_length: "list_count rows = length rows"
  by (simp add: list_count_def get_plants_def healthy_def session_begin_def make_response_def)

lemma created_iff:
  "created (rq, r) \<longleftrightarrow> (\<exists>e data resp. rq = POST_plants e data \<and> r = Inr resp \<and> status resp = 201)"
  by (cases "(rq, r)" rule: created.cases) auto

lemma deleted_iff:
  "deleted (rq, r) \<longleftrightarrow> (\<exists>e i resp. rq = DELETE_plant e i \<and> r = Inr resp \<and> status resp = 200)"
  by (cases "(rq, r)" rule: deleted.cases) auto

lemma stored_filter: "stored rows \<Longrightarrow> stored (filter P rows)"
  by (auto simp: stored_def distinct_map_filter list_all_iff)

lemma stored_append:
  assumes "stored rows" and "assign_id pk rows = Inr k" and "plant_id p = k"
  shows "stored (rows @ [p])"
  using assms assign_id_fresh[OF assms(2)] assign_id_int64[OF assms(2)]
  by (auto simp: stored_def)

text \<open>One request keeps the ids of the table distinct integers of the store.\<close>

lemma handle_stored:
  assumes "stored rows" and "handle rq rows = (r, s)"
  shows "stored (table s)"
proof (cases rq)
  case (GET_plants e)
  then show ?thesis
    using assms handle_reads(1)[of e rows r s] by simp
next
  case (GET_plant e i)
  then show ?thesis
    using assms handle_reads(2)[of e i rows r s] by simp
next
  case (POST_plants e data)
  then show ?thesis
  proof -
    have c: "create_plant e data rows = (r, s)"
      using assms(2) POST_plants by simp
    from create_plant_cases[OF c] show ?thesis
    proof
      assume "\<exists>n i d k. on_commit e = Db_ok \<and> assign_id (pick_id e) rows = Inr k
          \<and> s = \<lparr>table = rows @ [\<lparr>plant_id = k, plant_name = n, plant_image = i, plant_price = d\<rparr>], pending = []\<rparr>
          \<and> (if on_reload e = Db_ok
               then r = Inr (make_response (Object (to_dict \<lparr>plant_id = k, plant_name = n, plant_image = i, plant_price = d\<rparr>)) 201)
               else \<not> succeeded r)"
      then obtain n i d k where a: "assign_id (pick_id e) rows = Inr k"
        and t: "s = \<lparr>table = rows @ [\<lparr>plant_id = k, plant_name = n, plant_image = i, plant_price = d\<rparr>], pending = []\<rparr>"
        by blast
      show ?thesis
        using stored_append[OF assms(1) a, of "\<lparr>plant_id = k, plant_name = n, plant_image = i, plant_price = d\<rparr>"] t
        by simp
    next
      assume "\<not> succeeded r \<and> s = \<lparr>table = rows, pending = []\<rparr>"
      then show ?thesis
        using assms(1) by simp
    qed
  qed
next
  case (DELETE_plant e i)
  then show ?thesis
    using assms delete_plant_cases[of e i rows r s]
    by (auto intro: stored_filter)
qed

text \<open>
  One request changes the number of rows by what its response says, when the read of a
  committed row is answered.
\<close>

lemma handle_count:
  assumes "stored rows" and "handle rq rows = (r, s)" and "reload_of rq = Db_ok"
  shows "length (table s) + (if deleted (rq, r) then 1 else 0)
           = length rows + (if created (rq, r) then 1 else 0)"
proof (cases rq)
  case (GET_plants e)
  then show ?thesis
    using assms handle_reads(1)[of e rows r s] by (simp add: created_iff deleted_iff)
next
  case (GET_plant e i)
  then show ?thesis
    using assms handle_reads(2)[of e i rows r s] by (simp add: created_iff deleted_iff)
next
  case (POST_plants e data)
  then show ?thesis
    using assms create_plant_cases[of e data rows r s]
    by (auto simp: created_iff deleted_iff make_response_def)
next
  case (DELETE_plant e i)
  then show ?thesis
    using assms delete_plant_cases[of e i rows r s]
      length_filter_distinct[of plant_id rows i]
    by (auto simp: created_iff deleted_iff make_response_def stored_def)
qed

lemma run_stored:
  assumes "stored rows" and "run rqs rows = (log, rows')"
  shows "stored rows'"
  using assms
proof (induction rqs arbitrary: rows log)
  case Nil
  then show ?case by simp
next
  case (Cons rq rqs)
  obtain r s where h: "handle rq rows = (r, s)"
    by (cases "handle rq rows")
  obtain log1 where l: "run rqs (table s) = (log1, rows')"
    using Cons.prems(2) h by (auto split: prod.splits)
  show ?case
    using Cons.IH[OF handle_stored[OF Cons.prems(1) h] l] .
qed

lemma run_count:
  assumes "stored rows" and "run rqs rows = (log, rows')"
    and "list_all (\<lambda>rq. reload_of rq = Db_ok) rqs"
  shows "length rows' + length (filter deleted log) = length rows + length (filter created log)"
  using assms
proof (induction rqs arbitrary: rows log)
  case Nil
  then show ?case by simp
next
  case (Cons rq rqs)
  obtain r s where h: "handle rq rows = (r, s)"
    by (cases "handle rq rows")
  obtain log1 where l: "run rqs (table s) = (log1, rows')" and log: "log = (rq, r) # log1"
    using Cons.prems(2) h by (auto split: prod.splits)
  have st: "length (table s) + (if deleted (rq, r) then 1 else 0)
       = length rows + (if created (rq, r) then 1 else 0)"
    using handle_count[OF Cons.prems(1) h] Cons.prems(3) by simp
  have ih: "length rows' + length (filter deleted log1)
      = length (table s) + length (filter created log1)"
    using Cons.IH[OF handle_stored[OF Cons.prems(1) h] l] Cons.prems(3) by simp
  show ?case
    using st ih log by auto
qed

lemma new_ids_set:
  "set (map plant_id rows') \<subseteq> set (map plant_id rows) \<union> set (new_ids rows rows')"
  by (auto simp: new_ids_def)

lemma new_ids_handle:
  assumes "handle rq rows = (r, s)"
  shows "new_ids rows (table s) =
     (case rq of
        POST_plants e data \<Rightarrow>
          (if table s = rows then []
           else (case assign_id (pick_id e) rows of Inl err \<Rightarrow> [] | Inr k \<Rightarrow> [k]))
      | _ \<Rightarrow> [])"
proof (cases rq)
  case (GET_plants e)
  then show ?thesis
    using assms handle_reads(1)[of e rows r s] by (simp add: new_ids_def)
next
  case (GET_plant e i)
  then show ?thesis
    using assms handle_reads(2)[of e i rows r s] by (simp add: new_ids_def)
next
  case (POST_plants e data)
  then show ?thesis
  proof -
    have c: "create_plant e data rows = (r, s)"
      using assms POST_plants by simp
    from create_plant_cases[OF c] show ?thesis
    proof
      assume "\<exists>n i d k. on_commit e = Db_ok \<and> assign_id (pick_id e) rows = Inr k
          \<and> s = \<lparr>table = rows @ [\<lparr>plant_id = k, plant_name = n, plant_image = i, plant_price = d\<rparr>], pending = []\<rparr>
          \<and> (if on_reload e = Db_ok
               then r = Inr (make_response (Object (to_dict \<lparr>plant_id = k, plant_name = n, plant_image = i, plant_price = d\<rparr>)) 201)
               else \<not> succeeded r)"
      then obtain n i d k where a: "assign_id (pick_id e) rows = Inr k"
        and t: "s = \<lparr>table = rows @ [\<lparr>plant_id = k, plant_name = n, plant_image = i, plant_price = d\<rparr>], pending = []\<rparr>"
        by blast
      have f: "filter (\<lambda>j. \<not> List.member (map plant_id rows) j) (map plant_id rows) = []"
        by (simp add: filter_empty_conv)
      have "new_ids rows (table s) = [k]"
        using assign_id_fresh[OF a] f unfolding new_ids_def t by simp
      then show ?thesis
        using POST_plants a t by simp
    next
      assume "\<not> succeeded r \<and> s = \<lparr>table = rows, pending = []\<rparr>"
      then show ?thesis
        using POST_plants by (simp add: new_ids_def filter_empty_conv)
    qed
  qed
next
  case (DELETE_plant e i)
  then show ?thesis
    using assms delete_plant_cases[of e i rows r s] by (auto simp: new_ids_def)
qed

text \<open>An id enters the table only as an id that the store assigned in the run.\<close>

lemma run_ids:
  assumes "run rqs rows = (log, rows')"
  shows "set (map plant_id rows') \<subseteq> set (map plant_id rows) \<union> set (assigned_ids rqs rows)"
  using assms
proof (induction rqs arbitrary: rows log)
  case Nil
  then show ?case by simp
next
  case (Cons rq rqs)
  obtain r s where h: "handle rq rows = (r, s)"
    by (cases "handle rq rows")
  obtain log1 where l: "run rqs (table s) = (log1, rows')"
    using Cons.prems h by (auto split: prod.splits)
  have a: "assigned_ids (rq # rqs) rows = new_ids rows (table s) @ assigned_ids rqs (table s)"
    using h by simp
  show ?case
    using new_ids_set[of "table s" rows] Cons.IH[OF l]
    by (simp only: a set_append) blast
qed

section \<open>Atomic mutations\<close>

text \<open>
  C7. Create and delete are atomic. When either handler returns, its session has no
  pending change, and one of two holds. Either the store committed the mutation, and the
  table is the old one with the one mutation: a delete is then answered 200, and a create
  is answered 201 unless the read of the new row after the commit raised. Or the request
  did not succeed and the table is exactly the one the request found: a commit that
  raises is rolled back before the error response is returned, and a lookup or a
  validation that fails has changed nothing.
\<close>

theorem mutating_handlers_atomic:
  assumes "create_plant e data rows = (r, s)" and "delete_plant e' i rows = (r', s')"
  shows "pending s = [] \<and> pending s' = []
       \<and> ((on_commit e = Db_ok \<and> (\<exists>p. table s = rows @ [p])
              \<and> (succeeded r \<or> on_reload e \<noteq> Db_ok))
            \<or> (\<not> succeeded r \<and> table s = rows))
       \<and> ((succeeded r' \<and> on_commit e' = Db_ok \<and> table s' = filter (\<lambda>p. plant_id p \<noteq> i) rows)
            \<or> (\<not> succeeded r' \<and> table s' = rows))"
proof -
  have c: "pending s = []
       \<and> ((on_commit e = Db_ok \<and> (\<exists>p. table s = rows @ [p])
              \<and> (succeeded r \<or> on_reload e \<noteq> Db_ok))
            \<or> (\<not> succeeded r \<and> table s = rows))"
    using create_plant_cases[OF assms(1)]
    by (auto simp: make_response_def split: if_splits)
  have d: "pending s' = []
       \<and> ((succeeded r' \<and> on_commit e' = Db_ok \<and> table s' = filter (\<lambda>p. plant_id p \<noteq> i) rows)
            \<or> (\<not> succeeded r' \<and> table s' = rows))"
    using delete_plant_cases[OF assms(2)]
    by (auto simp: make_response_def)
  show ?thesis
    using c d by blast
qed

theorem mutating_handlers_atomic_witness:
  "create_plant (healthy\<lparr>on_commit := locked\<rparr>) fern [aloe]
     = (Inr (internal_server_error (Str ''database is locked'')), \<lparr>table = [aloe], pending = []\<rparr>)
   \<and> delete_plant (healthy\<lparr>on_commit := locked\<rparr>) 1 [aloe]
     = (Inr (internal_server_error (Str ''database is locked'')), \<lparr>table = [aloe], pending = []\<rparr>)
   \<and> \<not> succeeded (Inr (internal_server_error (Str ''database is locked'')))"
proof -
  have h1: "create_plant (healthy\<lparr>on_commit := locked\<rparr>) fern [aloe]
     = (Inr (internal_server_error (Str ''database is locked'')), \<lparr>table = [aloe], pending = []\<rparr>)"
    by code_simp
  have h2: "delete_plant (healthy\<lparr>on_commit := locked\<rparr>) 1 [aloe]
     = (Inr (internal_server_error (Str ''database is locked'')), \<lparr>table = [aloe], pending = []\<rparr>)"
    by code_simp
  show ?thesis
    using h1 h2 mutating_handlers_atomic [OF h1 h2]
    by (simp add: internal_server_error_def make_response_def)
qed

section \<open>Counting the records\<close>

text \<open>
  C8. After a sequence of requests with N creates answered 201 and M deletes answered
  200, \<^verbatim>\<open>GET /plants\<close> should list N - M records more than at the start. A create whose row
  is committed, and for which the read of the row in \<^verbatim>\<open>new_plant.to_dict()\<close> then raises,
  is answered 500; the rollback of the \<^verbatim>\<open>except\<close> branch comes after the commit, and the
  record stays. One such request on an empty table: no 201 and no 200 in the run, and the
  count goes from 0 to 1.
\<close>

theorem create_persists_and_answers_500:
  "run [POST_plants (healthy\<lparr>on_reload := locked\<rparr>) fern] []
     = ([(POST_plants (healthy\<lparr>on_reload := locked\<rparr>) fern,
          Inr \<lparr>status = 500, content = Object
            [(''error'', Plain (JStr ''Internal Server Error''))]\<rparr>)],
        [\<lparr>plant_id = 1, plant_name = JStr ''Fern'', plant_image = JStr ''./images/fern.jpg'',
           plant_price = Finite False 9 0\<rparr>])
   \<and> length (filter created (fst (run [POST_plants (healthy\<lparr>on_reload := locked\<rparr>) fern] []))) = 0
   \<and> length (filter deleted (fst (run [POST_plants (healthy\<lparr>on_reload := locked\<rparr>) fern] []))) = 0
   \<and> list_count [] = 0
   \<and> list_count (snd (run [POST_plants (healthy\<lparr>on_reload := locked\<rparr>) fern] [])) = 1"
  by code_simp

text \<open>
  When the store answers the read of the new row after every commit of a create, the
  count is as the spec says: from any table that the store holds, after any sequence of
  requests, with any other answers of the store, the number of records \<^verbatim>\<open>GET /plants\<close>
  lists is the number it listed at the start, plus the number of creates answered 201,
  minus the number of deletes answered 200.
\<close>

theorem list_count_after_run:
  assumes "stored rows" and "run rqs rows = (log, rows')"
    and "list_all (\<lambda>rq. reload_of rq = Db_ok) rqs"
  shows "int (list_count rows')
       = int (list_count rows) + int (length (filter created log)) - int (length (filter deleted log))"
  using run_count[OF assms] by (simp add: list_count_length)

theorem list_count_after_run_witness:
  "stored [aloe, zz_plant]
   \<and> list_all (\<lambda>rq. reload_of rq = Db_ok)
        [POST_plants healthy fern,
         DELETE_plant healthy 1, DELETE_plant healthy 7,
         POST_plants healthy (payload (JStr []) (JStr ''./images/fern.jpg'') (JInt 9)),
         POST_plants (healthy\<lparr>on_commit := locked\<rparr>) fern,
         POST_plants healthy (payload (JStr ''Ivy'') (JStr ''./images/ivy.jpg'') (JStr ''4.25'')),
         GET_plants healthy]
   \<and> length (filter created (fst (run
        [POST_plants healthy fern,
         DELETE_plant healthy 1, DELETE_plant healthy 7,
         POST_plants healthy (payload (JStr []) (JStr ''./images/fern.jpg'') (JInt 9)),
         POST_plants (healthy\<lparr>on_commit := locked\<rparr>) fern,
         POST_plants healthy (payload (JStr ''Ivy'') (JStr ''./images/ivy.jpg'') (JStr ''4.25'')),
         GET_plants healthy] [aloe, zz_plant]))) = 2
   \<and> length (filter deleted (fst (run
        [POST_plants healthy fern,
         DELETE_plant healthy 1, DELETE_plant healthy 7,
         POST_plants healthy (payload (JStr []) (JStr ''./images/fern.jpg'') (JInt 9)),
         POST_plants (healthy\<lparr>on_commit := locked\<rparr>) fern,
         POST_plants healthy (payload (JStr ''Ivy'') (JStr ''./images/ivy.jpg'') (JStr ''4.25'')),
         GET_plants healthy] [aloe, zz_plant]))) = 1
   \<and> list_count [aloe, zz_plant] = 2
   \<and> list_count (snd (run
        [POST_plants healthy fern,
         DELETE_plant healthy 1, DELETE_plant healthy 7,
         POST_plants healthy (payload (JStr []) (JStr ''./images/fern.jpg'') (JInt 9)),
         POST_plants (healthy\<lparr>on_commit := locked\<rparr>) fern,
         POST_plants healthy (payload (JStr ''Ivy'') (JStr ''./images/ivy.jpg'') (JStr ''4.25'')),
         GET_plants healthy] [aloe, zz_plant])) = 3"
proof -
  let ?rqs = "[POST_plants healthy fern,
         DELETE_plant healthy 1, DELETE_plant healthy 7,
         POST_plants healthy (payload (JStr []) (JStr ''./images/fern.jpg'') (JInt 9)),
         POST_plants (healthy\<lparr>on_commit := locked\<rparr>) fern,
         POST_plants healthy (payload (JStr ''Ivy'') (JStr ''./images/ivy.jpg'') (JStr ''4.25'')),
         GET_plants healthy]"
  have d: "stored [aloe, zz_plant]"
    by (simp add: stored_def aloe_def zz_plant_def int64_def)
  have a: "list_all (\<lambda>rq. reload_of rq = Db_ok) ?rqs"
    by (simp add: healthy_def)
  have c: "length (filter created (fst (run ?rqs [aloe, zz_plant]))) = 2"
    by code_simp
  have e: "length (filter deleted (fst (run ?rqs [aloe, zz_plant]))) = 1"
    by code_simp
  have l: "list_count [aloe, zz_plant] = 2"
    by code_simp
  have "run ?rqs [aloe, zz_plant] = (fst (run ?rqs [aloe, zz_plant]), snd (run ?rqs [aloe, zz_plant]))"
    by simp
  from list_count_after_run [OF d this a]
  have "int (list_count (snd (run ?rqs [aloe, zz_plant]))) = 3"
    unfolding c e l by simp
  then have "list_count (snd (run ?rqs [aloe, zz_plant])) = 3"
    by simp
  then show ?thesis
    using d a c e l by blast
qed

section \<open>The ids the store assigns\<close>

text \<open>
  C9, as the spec has it: no id assigned to a new Plant equals an id assigned before,
  also not that of a record since deleted. The store hands out the largest id of the
  table plus one: after the only record is deleted, the next create gets its id again.
\<close>

theorem id_reused_after_delete:
  "created_ids (fst (run
     [POST_plants healthy (payload (JStr ''Aloe'') (JStr ''./images/aloe.jpg'') (JStr ''11.50'')),
      DELETE_plant healthy 1,
      POST_plants healthy
        (payload (JStr ''ZZ Plant'') (JStr ''./images/zz-plant.jpg'') (JFloat ''25.98''))]
     [])) = [1, 1]"
  by code_simp

text \<open>
  C9, amended. After any sequence of requests from a table that the store holds, a create
  that adds a record gives it an id that no record of the table has, and the ids of the
  table stay distinct. The id is 1 for an empty table, the largest id of the table plus
  one as long as that id is below \<open>2\<^sup>6\<^sup>3 - 1\<close>, and else a positive id not in use that the
  store picks. A 201 response carries this id.
\<close>

theorem created_id_not_in_table:
  assumes "stored rows" and "run rqs rows = (log, rows')"
    and "create_plant e data rows' = (r, s)" and "table s \<noteq> rows'"
  shows "\<exists>p. table s = rows' @ [p]
       \<and> plant_id p \<notin> set (map plant_id rows')
       \<and> (if rows' = [] then plant_id p = 1
           else if Max (set (map plant_id rows')) < 9223372036854775807
             then plant_id p = Max (set (map plant_id rows')) + 1
           else pick_id e = Picks (plant_id p) \<and> 0 < plant_id p)
       \<and> int64 (plant_id p)
       \<and> distinct (map plant_id (table s))
       \<and> ((\<exists>resp. r = Inr resp \<and> status resp = 201 \<and> response_id resp = Some (plant_id p))
            \<or> \<not> succeeded r)"
proof -
  have st: "stored rows'"
    using run_stored[OF assms(1,2)] .
  from create_plant_cases[OF assms(3)] assms(4)
  obtain n i d k where a: "assign_id (pick_id e) rows' = Inr k"
    and t: "s = \<lparr>table = rows' @ [\<lparr>plant_id = k, plant_name = n, plant_image = i,
                     plant_price = d\<rparr>], pending = []\<rparr>"
    and r: "if on_reload e = Db_ok
                then r = Inr (make_response (Object (to_dict
                   \<lparr>plant_id = k, plant_name = n, plant_image = i, plant_price = d\<rparr>)) 201)
                else \<not> succeeded r"
    by auto
  let ?p = "\<lparr>plant_id = k, plant_name = n, plant_image = i, plant_price = d\<rparr>"
  have f: "k \<notin> set (map plant_id rows')"
    using assign_id_fresh[OF a] .
  have i: "int64 k"
    using assign_id_int64[OF a] st by (simp add: stored_def)
  have d: "distinct (map plant_id (table s))"
    using st f t by (simp add: stored_def)
  have x: "(\<exists>resp. r = Inr resp \<and> status resp = 201 \<and> response_id resp = Some k)
            \<or> \<not> succeeded r"
    using r by (auto simp: response_id_def make_response_def to_dict_def split: if_splits)
  have "table s = rows' @ [?p]
       \<and> plant_id ?p \<notin> set (map plant_id rows')
       \<and> (if rows' = [] then plant_id ?p = 1
           else if Max (set (map plant_id rows')) < 9223372036854775807
             then plant_id ?p = Max (set (map plant_id rows')) + 1
           else pick_id e = Picks (plant_id ?p) \<and> 0 < plant_id ?p)
       \<and> int64 (plant_id ?p)
       \<and> distinct (map plant_id (table s))
       \<and> ((\<exists>resp. r = Inr resp \<and> status resp = 201 \<and> response_id resp = Some (plant_id ?p))
            \<or> \<not> succeeded r)"
    using t f i d x assign_id_next[OF a] by simp
  then show ?thesis
    by (rule exI)
qed

theorem created_id_not_in_table_witness:
  "stored [aloe, \<lparr>plant_id = 9223372036854775807, plant_name = JStr ''Ivy'',
       plant_image = JStr ''./images/ivy.jpg'', plant_price = Finite False 425 (- 2)\<rparr>]
   \<and> snd (run [DELETE_plant healthy 1]
       [aloe, \<lparr>plant_id = 9223372036854775807, plant_name = JStr ''Ivy'',
          plant_image = JStr ''./images/ivy.jpg'', plant_price = Finite False 425 (- 2)\<rparr>])
      = [\<lparr>plant_id = 9223372036854775807, plant_name = JStr ''Ivy'',
          plant_image = JStr ''./images/ivy.jpg'', plant_price = Finite False 425 (- 2)\<rparr>]
   \<and> create_plant (healthy\<lparr>pick_id := Picks 7\<rparr>) fern
        [\<lparr>plant_id = 9223372036854775807, plant_name = JStr ''Ivy'',
          plant_image = JStr ''./images/ivy.jpg'', plant_price = Finite False 425 (- 2)\<rparr>]
      = (Inr (make_response (Object (to_dict \<lparr>plant_id = 7, plant_name = JStr ''Fern'',
          plant_image = JStr ''./images/fern.jpg'', plant_price = Finite False 9 0\<rparr>)) 201),
         \<lparr>table = [\<lparr>plant_id = 9223372036854775807, plant_name = JStr ''Ivy'',
              plant_image = JStr ''./images/ivy.jpg'', plant_price = Finite False 425 (- 2)\<rparr>,
            \<lparr>plant_id = 7, plant_name = JStr ''Fern'',
              plant_image = JStr ''./images/fern.jpg'', plant_price = Finite False 9 0\<rparr>],
          pending = []\<rparr>)
   \<and> pick_id (healthy\<lparr>pick_id := Picks 7\<rparr>) = Picks 7
   \<and> response_id (make_response (Object (to_dict \<lparr>plant_id = 7, plant_name = JStr ''Fern'',
          plant_image = JStr ''./images/fern.jpg'', plant_price = Finite False 9 0\<rparr>)) 201)
      = Some 7
   \<and> 7 \<notin> set (map plant_id [\<lparr>plant_id = 9223372036854775807, plant_name = JStr ''Ivy'',
          plant_image = JStr ''./images/ivy.jpg'', plant_price = Finite False 425 (- 2)\<rparr>])"
proof -
  let ?ivy = "\<lparr>plant_id = 9223372036854775807, plant_name = JStr ''Ivy'',
          plant_image = JStr ''./images/ivy.jpg'', plant_price = Finite False 425 (- 2)\<rparr>"
  let ?new = "\<lparr>plant_id = 7, plant_name = JStr ''Fern'',
          plant_image = JStr ''./images/fern.jpg'', plant_price = Finite False 9 0\<rparr>"
  let ?e = "healthy\<lparr>pick_id := Picks 7\<rparr>"
  have d: "stored [aloe, ?ivy]"
    by (simp add: stored_def aloe_def int64_def)
  have r: "run [DELETE_plant healthy 1] [aloe, ?ivy]
         = (fst (run [DELETE_plant healthy 1] [aloe, ?ivy]), [?ivy])"
    by code_simp
  have r2: "snd (run [DELETE_plant healthy 1] [aloe, ?ivy]) = [?ivy]"
    by code_simp
  have c: "create_plant ?e fern [?ivy]
      = (Inr (make_response (Object (to_dict ?new)) 201),
         \<lparr>table = [?ivy, ?new], pending = []\<rparr>)"
    by code_simp
  have n: "table \<lparr>table = [?ivy, ?new], pending = []\<rparr> \<noteq> [?ivy]"
    by simp
  have p: "pick_id ?e = Picks 7"
    by simp
  have i: "response_id (make_response (Object (to_dict ?new)) 201) = Some 7"
    by code_simp
  obtain q where q: "table \<lparr>table = [?ivy, ?new], pending = []\<rparr> = [?ivy] @ [q]"
    "plant_id q \<notin> set (map plant_id [?ivy])"
    using created_id_not_in_table [OF d r c n] by blast
  have "q = ?new"
    using q(1) by simp
  then have "7 \<notin> set (map plant_id [?ivy])"
    using q(2) by simp
  then show ?thesis
    using d r2 c p i by blast
qed

section \<open>Create, then read\<close>

lemma create_plant_commits:
  assumes "map_of kvs ''name'' = Some n" and "truthy n"
    and "map_of kvs ''image'' = Some i" and "truthy i"
    and "map_of kvs ''price'' = Some p" and "Decimal_str p = Inr d"
    and "on_commit e = Db_ok" and "on_reload e = Db_ok"
    and "assign_id (pick_id e) rows = Inr k"
    and "new = \<lparr>plant_id = k, plant_name = n, plant_image = i, plant_price = d\<rparr>"
  shows "create_plant e (JObj kvs) rows =
           (Inr \<lparr>status = 201, content = Object (to_dict new)\<rparr>,
            \<lparr>table = rows @ [new], pending = []\<rparr>)"
proof -
  have "p \<noteq> JNull"
    using assms(6) by (auto simp: Decimal_None)
  moreover have "kvs \<noteq> []"
    using assms(1) by auto
  ultimately show ?thesis
    using assms
    unfolding create_plant_def Let_def all_in_dict
    by (simp add: session_begin_def session_add_def session_commit_def make_response_def)
qed

lemma get_plant_found:
  "query_get e rows i = Inr (Some p) \<Longrightarrow>
   get_plant_by_id e i rows =
     (Inr \<lparr>status = 200, content = Object (to_dict p)\<rparr>, \<lparr>table = rows, pending = []\<rparr>)"
  by (simp add: get_plant_by_id_def session_begin_def make_response_def)

lemma query_get_new:
  assumes "k \<notin> set (map plant_id rows)" and "plant_id new = k" and "int64 k"
    and "on_query e = Db_ok"
  shows "query_get e (rows @ [new]) k = Inr (Some new)"
proof -
  have "find (\<lambda>p. plant_id p = k) rows = None"
    using assms(1) by (auto simp: find_None_iff)
  then show ?thesis
    using assms by (simp add: query_get_def find_app)
qed

text \<open>
  C3, as the spec has it: every valid payload is answered 201 with an id not assigned
  before, and a GET of that id returns the same record. The id can be one assigned
  before: after the record with the largest id is deleted, the next create gets that id
  again. And a valid payload is answered 500 when the commit raises.
\<close>

theorem created_id_was_assigned_before:
  "created_ids (fst (run
     [POST_plants healthy (payload (JStr ''Aloe'') (JStr ''./images/aloe.jpg'') (JStr ''11.50'')),
      POST_plants healthy
        (payload (JStr ''ZZ Plant'') (JStr ''./images/zz-plant.jpg'') (JStr ''25.98'')),
      DELETE_plant healthy 2,
      POST_plants healthy fern]
     [])) = [1, 2, 2]
   \<and> statuses (fst (run [POST_plants (healthy\<lparr>on_commit := locked\<rparr>) fern] [])) = [500]"
  by code_simp

text \<open>
  C3, amended. For every payload with a truthy name, a truthy image and a price that
  \<^verbatim>\<open>Decimal\<close> reads, on a table whose ids are integers of the store, when the store
  assigns an id, commits and answers the read of the new row: the create is answered 201
  with the new record, which is appended to the table.
  Its id is one that no record of the table has: 1 for an empty table, the largest id of
  the table plus one as long as that id is below \<open>2\<^sup>6\<^sup>3 - 1\<close>, and else a positive id not
  in use that the store picks. And a GET of that id right after, when the store answers
  the lookup, is answered 200 with the same body.
\<close>

theorem create_plant_valid:
  assumes "map_of kvs ''name'' = Some n" and "truthy n"
    and "map_of kvs ''image'' = Some i" and "truthy i"
    and "map_of kvs ''price'' = Some p" and "Decimal_str p = Inr d"
    and "list_all int64 (map plant_id rows)"
    and "on_commit e = Db_ok" and "on_reload e = Db_ok"
    and "assign_id (pick_id e) rows = Inr k"
    and "on_query e' = Db_ok"
    and "new = \<lparr>plant_id = k, plant_name = n, plant_image = i, plant_price = d\<rparr>"
  shows "create_plant e (JObj kvs) rows =
           (Inr \<lparr>status = 201, content = Object (to_dict new)\<rparr>,
            \<lparr>table = rows @ [new], pending = []\<rparr>)
       \<and> map_of (to_dict new) ''id'' = Some (Plain (JInt k))
       \<and> k \<notin> set (map plant_id rows)
       \<and> (if rows = [] then k = 1
           else if Max (set (map plant_id rows)) < 9223372036854775807
             then k = Max (set (map plant_id rows)) + 1
           else pick_id e = Picks k \<and> 0 < k)
       \<and> get_plant_by_id e' k (rows @ [new]) =
           (Inr \<lparr>status = 200, content = Object (to_dict new)\<rparr>,
            \<lparr>table = rows @ [new], pending = []\<rparr>)"
proof -
  have c: "create_plant e (JObj kvs) rows =
           (Inr \<lparr>status = 201, content = Object (to_dict new)\<rparr>,
            \<lparr>table = rows @ [new], pending = []\<rparr>)"
    using assms(1-6,8-10,12) by (rule create_plant_commits)
  have f: "k \<notin> set (map plant_id rows)"
    using assign_id_fresh[OF assms(10)] .
  have "query_get e' (rows @ [new]) k = Inr (Some new)"
    using f assign_id_int64[OF assms(10,7)] assms(11,12) by (intro query_get_new) simp_all
  then have g: "get_plant_by_id e' k (rows @ [new]) =
           (Inr \<lparr>status = 200, content = Object (to_dict new)\<rparr>,
            \<lparr>table = rows @ [new], pending = []\<rparr>)"
    by (rule get_plant_found)
  have m: "map_of (to_dict new) ''id'' = Some (Plain (JInt k))"
    using assms(12) by (simp add: to_dict_def)
  show ?thesis
    using c g f m assign_id_next[OF assms(10)] by simp
qed

theorem create_plant_valid_witness:
  "truthy (JStr ''Aloe'') \<and> truthy (JStr ''./images/aloe.jpg'')
   \<and> Decimal_str (JFloat ''11.5'') = Inr (Finite False 115 (- 1))
   \<and> list_all int64 (map plant_id [zz_plant])
   \<and> assign_id (pick_id healthy) [zz_plant] = Inr 3
   \<and> create_plant healthy
        (JObj [(''name'', JStr ''Aloe''), (''image'', JStr ''./images/aloe.jpg''),
               (''price'', JFloat ''11.5'')]) [zz_plant]
      = (Inr \<lparr>status = 201, content = Object (to_dict
            \<lparr>plant_id = 3, plant_name = JStr ''Aloe'', plant_image = JStr ''./images/aloe.jpg'',
               plant_price = Finite False 115 (- 1)\<rparr>)\<rparr>,
         \<lparr>table = [zz_plant,
            \<lparr>plant_id = 3, plant_name = JStr ''Aloe'', plant_image = JStr ''./images/aloe.jpg'',
               plant_price = Finite False 115 (- 1)\<rparr>], pending = []\<rparr>)
   \<and> get_plant_by_id healthy 3 [zz_plant,
            \<lparr>plant_id = 3, plant_name = JStr ''Aloe'', plant_image = JStr ''./images/aloe.jpg'',
               plant_price = Finite False 115 (- 1)\<rparr>]
      = (Inr \<lparr>status = 200, content = Object (to_dict
            \<lparr>plant_id = 3, plant_name = JStr ''Aloe'', plant_image = JStr ''./images/aloe.jpg'',
               plant_price = Finite False 115 (- 1)\<rparr>)\<rparr>,
         \<lparr>table = [zz_plant,
            \<lparr>plant_id = 3, plant_name = JStr ''Aloe'', plant_image = JStr ''./images/aloe.jpg'',
               plant_price = Finite False 115 (- 1)\<rparr>], pending = []\<rparr>)"
proof -
  let ?kvs = "[(''name'', JStr ''Aloe''), (''image'', JStr ''./images/aloe.jpg''),
          (''price'', JFloat ''11.5'')]"
  let ?new = "\<lparr>plant_id = 3, plant_name = JStr ''Aloe'', plant_image = JStr ''./images/aloe.jpg'',
           plant_price = Finite False 115 (- 1)\<rparr>"
  have d: "Decimal_str (JFloat ''11.5'') = Inr (Finite False 115 (- 1))"
    by code_simp
  have a: "assign_id (pick_id healthy) [zz_plant] = Inr 3"
    by code_simp
  have t: "truthy (JStr ''Aloe'')" "truthy (JStr ''./images/aloe.jpg'')"
    by simp_all
  have l: "list_all int64 (map plant_id [zz_plant])"
    by (simp add: zz_plant_def int64_def)
  have h: "on_commit healthy = Db_ok" "on_reload healthy = Db_ok" "on_query healthy = Db_ok"
    by (simp_all add: healthy_def)
  have k: "map_of ?kvs ''name'' = Some (JStr ''Aloe'')"
    "map_of ?kvs ''image'' = Some (JStr ''./images/aloe.jpg'')"
    "map_of ?kvs ''price'' = Some (JFloat ''11.5'')"
    by simp_all
  have "create_plant healthy (JObj ?kvs) [zz_plant] =
           (Inr \<lparr>status = 201, content = Object (to_dict ?new)\<rparr>,
            \<lparr>table = [zz_plant] @ [?new], pending = []\<rparr>)
      \<and> get_plant_by_id healthy 3 ([zz_plant] @ [?new]) =
           (Inr \<lparr>status = 200, content = Object (to_dict ?new)\<rparr>,
            \<lparr>table = [zz_plant] @ [?new], pending = []\<rparr>)"
    using create_plant_valid [OF k(1) t(1) k(2) t(2) k(3) d l h(1) h(2) a h(3) refl]
    by blast
  then show ?thesis
    using d a t l by simp
qed

section \<open>Delete, then read\<close>

text \<open>
  C5, as the spec has it: after a delete every later GET of the id is answered 404. A
  later create can get the id of the deleted record, and a GET of the id then finds the
  new record. And the delete of a record is answered 500 when the commit raises.
\<close>

theorem deleted_id_found_again:
  "statuses (fst (run
     [DELETE_plant healthy 1, POST_plants healthy fern, GET_plant healthy 1]
     [aloe])) = [200, 201, 200]
   \<and> statuses (fst (run [DELETE_plant (healthy\<lparr>on_commit := locked\<rparr>) 1] [aloe])) = [500]"
  by code_simp

text \<open>
  C5, amended. For every id that the lookup finds a record for, when the store commits:
  the delete is answered 200 with the message \<^verbatim>\<open>Plant with id {id} successfully deleted\<close>
  and removes the record from the table; and after any later requests, as long as the
  store assigned this id to no new row among them, no record has the id and a GET of it,
  when the store answers the lookup, is answered 404.
\<close>

theorem delete_plant_removes:
  assumes "query_get e rows i = Inr (Some p)"
    and "on_commit e = Db_ok"
    and "run rqs (table (snd (delete_plant e i rows))) = (log, rows')"
    and "i \<notin> set (assigned_ids rqs (table (snd (delete_plant e i rows))))"
    and "on_query e' = Db_ok"
  shows "delete_plant e i rows =
           (Inr \<lparr>status = 200, content = Object [(''message'',
               Plain (JStr (''Plant with id '' @ str_int i @ '' successfully deleted'')))]\<rparr>,
            \<lparr>table = filter (\<lambda>q. plant_id q \<noteq> i) rows, pending = []\<rparr>)
       \<and> p \<notin> set (filter (\<lambda>q. plant_id q \<noteq> i) rows)
       \<and> query_get e' rows' i = Inr None
       \<and> statuses [(GET_plant e' i, fst (get_plant_by_id e' i rows'))] = [404]"
proof -
  have d: "delete_plant e i rows =
           (Inr \<lparr>status = 200, content = Object [(''message'',
               Plain (JStr (''Plant with id '' @ str_int i @ '' successfully deleted'')))]\<rparr>,
            \<lparr>table = filter (\<lambda>q. plant_id q \<noteq> i) rows, pending = []\<rparr>)"
    using assms(1,2)
    by (simp add: delete_plant_def session_begin_def session_delete_def session_commit_def
        make_response_def query_get_Some)
  have "i \<notin> set (map plant_id (filter (\<lambda>q. plant_id q \<noteq> i) rows))"
    by auto
  then have "i \<notin> set (map plant_id rows')"
    using run_ids[OF assms(3)] assms(4) d by auto
  then have n: "query_get e' rows' i = Inr None"
    using assms(5) query_get_Some[OF assms(1)] by (simp add: query_get_None)
  then have "statuses [(GET_plant e' i, fst (get_plant_by_id e' i rows'))] = [404]"
    by (simp add: statuses_def get_plant_by_id_def session_begin_def not_found_def
        make_response_def)
  then show ?thesis
    using d n query_get_Some[OF assms(1)] by simp
qed

theorem delete_plant_removes_witness:
  "query_get healthy [aloe, zz_plant] 1 = Inr (Some aloe)
   \<and> assigned_ids
        [GET_plants healthy, POST_plants healthy fern, DELETE_plant healthy 1]
        (table (snd (delete_plant healthy 1 [aloe, zz_plant]))) = [3]
   \<and> delete_plant healthy 1 [aloe, zz_plant] =
        (Inr \<lparr>status = 200, content = Object [(''message'',
            Plain (JStr ''Plant with id 1 successfully deleted''))]\<rparr>,
         \<lparr>table = [zz_plant], pending = []\<rparr>)
   \<and> statuses [(GET_plant healthy 1, fst (get_plant_by_id healthy 1 (snd (run
        [GET_plants healthy, POST_plants healthy fern, DELETE_plant healthy 1]
        (table (snd (delete_plant healthy 1 [aloe, zz_plant])))))))] = [404]"
proof -
  let ?rqs = "[GET_plants healthy, POST_plants healthy fern, DELETE_plant healthy 1]"
  let ?t = "table (snd (delete_plant healthy 1 [aloe, zz_plant]))"
  have q: "query_get healthy [aloe, zz_plant] 1 = Inr (Some aloe)"
    by code_simp
  have h: "on_commit healthy = Db_ok" "on_query healthy = Db_ok"
    by (simp_all add: healthy_def)
  have r: "run ?rqs ?t = (fst (run ?rqs ?t), snd (run ?rqs ?t))"
    by simp
  have c: "assigned_ids ?rqs ?t = [3]"
    by code_simp
  have i: "1 \<notin> set (assigned_ids ?rqs ?t)"
    unfolding c by simp
  have m: "''Plant with id '' @ str_int 1 @ '' successfully deleted''
         = ''Plant with id 1 successfully deleted''"
    by code_simp
  have f: "filter (\<lambda>q. plant_id q \<noteq> 1) [aloe, zz_plant] = [zz_plant]"
    by (simp add: aloe_def zz_plant_def)
  have "delete_plant healthy 1 [aloe, zz_plant] =
        (Inr \<lparr>status = 200, content = Object [(''message'',
            Plain (JStr ''Plant with id 1 successfully deleted''))]\<rparr>,
         \<lparr>table = [zz_plant], pending = []\<rparr>)
      \<and> statuses [(GET_plant healthy 1, fst (get_plant_by_id healthy 1 (snd (run ?rqs ?t))))] = [404]"
    using delete_plant_removes [OF q h(1) r i h(2)] unfolding m f by blast
  then show ?thesis
    using q c by blast
qed

section \<open>The text of the price\<close>

lemma is_digit_digit_char: "d < 10 \<Longrightarrow> is_digit (digit_char d)"
  by (simp add: is_digit_def digit_char_def)

lemma str_nat_digits: "str_nat n \<noteq> [] \<and> list_all is_digit (str_nat n)"
proof (induction n rule: str_nat.induct)
  case (1 n)
  show ?case
  proof (cases "n < 10")
    case True
    then show ?thesis
      by (subst (1 2) str_nat.simps) (simp add: is_digit_digit_char)
  next
    case False
    then show ?thesis
      using "1.IH" by (subst (1 2) str_nat.simps) (simp add: is_digit_digit_char)
  qed
qed

lemma is_digit_not_minus: "is_digit c \<Longrightarrow> c \<noteq> CHR ''-''"
  by (auto simp: is_digit_def)

lemma two_decimals_digits:
  assumes "ds \<noteq> []" and "list_all is_digit ds" and "is_digit a" and "is_digit b"
  shows "two_decimals ((if neg then ''-'' else []) @ ds @ ''.'' @ [a, b])"
proof -
  obtain c cs where ds: "ds = c # cs"
    using assms(1) by (cases ds) auto
  then have "c \<noteq> CHR ''-''"
    using assms(2) by (simp add: is_digit_not_minus)
  then show ?thesis
    using assms ds by (cases neg) (simp_all add: two_decimals_def)
qed

lemma two_decimals_format_2f: "two_decimals (format_2f neg x)"
proof -
  obtain m t where x: "x = (m, t)"
    by (cases x)
  show ?thesis
    unfolding x format_2f_def Let_def prod.case
    by (intro two_decimals_digits) (simp_all add: str_nat_digits is_digit_digit_char)
qed

lemma two_decimals_zero: "two_decimals ''0.00''"
  by (simp add: two_decimals_def is_digit_def)

lemma numeric_text_two_decimals:
  assumes "in_double_range d"
  shows "\<exists>t. numeric_text d = Some t \<and> two_decimals t"
proof (cases d)
  case (Finite neg c e)
  then show ?thesis
    using assms
    by (auto simp: numeric_text_def in_double_range_def Let_def two_decimals_zero
        two_decimals_format_2f)
next
  case (Infinity neg)
  then show ?thesis
    using assms by (simp add: in_double_range_def)
next
  case (NaN neg signaling payload)
  then show ?thesis
    using assms by (simp add: in_double_range_def)
qed

text \<open>The rounding is to a nearest integer.\<close>

lemma round_half_even_nearest:
  assumes "0 < b"
  shows "2 * \<bar>int a - int (round_half_even a b) * int b\<bar> \<le> int b"
proof -
  have a: "int a = int (a div b) * int b + int (a mod b)"
    by (metis div_mult_mod_eq of_nat_add of_nat_mult)
  have m: "a mod b < b"
    using assms by simp
  show ?thesis
    using a m
    unfolding round_half_even_def Let_def
    by (auto simp: algebra_simps)
qed

text \<open>
  Prices as the column gives them back: 11.505 is nearer to a double above it, 2.675 and
  0.125 round down, a negative price below a cent keeps its sign, a zero does not.
\<close>

lemma numeric_text_examples:
  "numeric_text (Finite False 1150 (- 2)) = Some ''11.50''"
  "numeric_text (Finite False 11505 (- 3)) = Some ''11.51''"
  "numeric_text (Finite False 2675 (- 3)) = Some ''2.67''"
  "numeric_text (Finite False 125 (- 3)) = Some ''0.12''"
  "numeric_text (Finite True 1 (- 3)) = Some ''-0.00''"
  "numeric_text (Finite True 0 0) = Some ''0.00''"
  by code_simp+

text \<open>
  C2. The price of every created Plant should be the same text, with exactly two
  fractional digits, in the 201 response and in every later read. A create with the
  price \<^verbatim>\<open>Infinity\<close> is not refused: \<^verbatim>\<open>Decimal\<close> reads it, SQLite stores the infinite
  double, and the record is created and read with the price \<^verbatim>\<open>Infinity\<close>, which has no
  fractional digits.
\<close>

theorem infinite_price_not_two_decimals:
  "create_plant healthy (payload (JStr ''Aloe'') (JStr ''./images/aloe.jpg'') (JStr ''Infinity'')) []
     = (Inr \<lparr>status = 201, content = Object
          [(''id'', Plain (JInt 1)), (''image'', Plain (JStr ''./images/aloe.jpg'')),
           (''name'', Plain (JStr ''Aloe'')), (''price'', Plain (JStr ''Infinity''))]\<rparr>,
        \<lparr>table = [\<lparr>plant_id = 1, plant_name = JStr ''Aloe'',
           plant_image = JStr ''./images/aloe.jpg'', plant_price = Infinity False\<rparr>],
         pending = []\<rparr>)
   \<and> get_plant_by_id healthy 1 [\<lparr>plant_id = 1, plant_name = JStr ''Aloe'',
           plant_image = JStr ''./images/aloe.jpg'', plant_price = Infinity False\<rparr>]
     = (Inr \<lparr>status = 200, content = Object
          [(''id'', Plain (JInt 1)), (''image'', Plain (JStr ''./images/aloe.jpg'')),
           (''name'', Plain (JStr ''Aloe'')), (''price'', Plain (JStr ''Infinity''))]\<rparr>,
        \<lparr>table = [\<lparr>plant_id = 1, plant_name = JStr ''Aloe'',
           plant_image = JStr ''./images/aloe.jpg'', plant_price = Infinity False\<rparr>],
         pending = []\<rparr>)
   \<and> \<not> two_decimals ''Infinity''"
  by code_simp

text \<open>
  For a Plant created with a finite price within the range of a double, the price is
  rendered as the spec says: the 201 response and the response to a GET of the record,
  from any later table that holds the record under its id, carry the same text with
  exactly two fractional digits, the price rounded to the nearest double and then to two
  places. Creating with the price 11.5 gives \<^verbatim>\<open>11.50\<close>.
\<close>

theorem created_price_two_decimals:
  assumes "map_of kvs ''name'' = Some n" and "truthy n"
    and "map_of kvs ''image'' = Some i" and "truthy i"
    and "map_of kvs ''price'' = Some p" and "Decimal_str p = Inr d"
    and "in_double_range d"
    and "on_commit e = Db_ok" and "on_reload e = Db_ok"
    and "assign_id (pick_id e) rows = Inr k"
    and "query_get e' rows' k =
           Inr (Some \<lparr>plant_id = k, plant_name = n, plant_image = i, plant_price = d\<rparr>)"
  shows "\<exists>t r1 r2.
           fst (create_plant e (JObj kvs) rows) = Inr r1 \<and> status r1 = 201
         \<and> fst (get_plant_by_id e' k rows') = Inr r2 \<and> status r2 = 200
         \<and> response_price r1 = Some (Plain (JStr t))
         \<and> response_price r2 = Some (Plain (JStr t))
         \<and> two_decimals t"
proof -
  let ?new = "\<lparr>plant_id = k, plant_name = n, plant_image = i, plant_price = d\<rparr>"
  obtain t where t: "numeric_text d = Some t" "two_decimals t"
    using numeric_text_two_decimals[OF assms(7)] by blast
  have c: "fst (create_plant e (JObj kvs) rows)
         = Inr \<lparr>status = 201, content = Object (to_dict ?new)\<rparr>"
    using create_plant_commits[OF assms(1-6,8-10), of ?new] by simp
  have g: "fst (get_plant_by_id e' k rows')
         = Inr \<lparr>status = 200, content = Object (to_dict ?new)\<rparr>"
    using get_plant_found[OF assms(11)] by simp
  have "response_price \<lparr>status = code, content = Object (to_dict ?new)\<rparr> = Some (Plain (JStr t))"
    for code
    using t(1) by (simp add: response_price_def to_dict_def numeric_cell_def)
  then show ?thesis
    using c g t(2) by auto
qed

theorem created_price_two_decimals_witness:
  "Decimal_str (JFloat ''11.5'') = Inr (Finite False 115 (- 1))
   \<and> in_double_range (Finite False 115 (- 1))
   \<and> response_price (projr (fst (create_plant healthy
        (JObj [(''name'', JStr ''Aloe''), (''image'', JStr ''./images/aloe.jpg''),
               (''price'', JFloat ''11.5'')]) []))) = Some (Plain (JStr ''11.50''))
   \<and> response_price (projr (fst (get_plant_by_id healthy 1
        [\<lparr>plant_id = 1, plant_name = JStr ''Aloe'', plant_image = JStr ''./images/aloe.jpg'',
           plant_price = Finite False 115 (- 1)\<rparr>, zz_plant]))) = Some (Plain (JStr ''11.50''))
   \<and> two_decimals ''11.50''"
proof -
  let ?kvs = "[(''name'', JStr ''Aloe''), (''image'', JStr ''./images/aloe.jpg''),
               (''price'', JFloat ''11.5'')]"
  let ?new = "\<lparr>plant_id = 1, plant_name = JStr ''Aloe'', plant_image = JStr ''./images/aloe.jpg'',
           plant_price = Finite False 115 (- 1)\<rparr>"
  have d: "Decimal_str (JFloat ''11.5'') = Inr (Finite False 115 (- 1))"
    by code_simp
  have r: "in_double_range (Finite False 115 (- 1))"
    by code_simp
  have a: "assign_id (pick_id healthy) [] = Inr 1"
    by (simp add: assign_id_def)
  have h: "on_commit healthy = Db_ok" "on_reload healthy = Db_ok"
    by (simp_all add: healthy_def)
  have q: "query_get healthy [?new, zz_plant] 1 = Inr (Some ?new)"
    by code_simp
  have p1: "response_price (projr (fst (create_plant healthy (JObj ?kvs) [])))
      = Some (Plain (JStr ''11.50''))"
    by code_simp
  have p2: "response_price (projr (fst (get_plant_by_id healthy 1 [?new, zz_plant])))
      = Some (Plain (JStr ''11.50''))"
    by code_simp
  obtain t r1 r2 where
    "fst (create_plant healthy (JObj ?kvs) []) = Inr r1"
    "response_price r1 = Some (Plain (JStr t))" "two_decimals t"
    using created_price_two_decimals [of ?kvs "JStr ''Aloe''" "JStr ''./images/aloe.jpg''"
        "JFloat ''11.5''" "Finite False 115 (- 1)" healthy "[]" 1 healthy "[?new, zz_plant]",
        OF _ _ _ _ _ d r h a q]
    by auto
  then have "two_decimals ''11.50''"
    using p1 by simp
  then show ?thesis
    using d r p1 p2 by blast
qed

section \<open>The scenario of the specification\<close>

text \<open>
  Create Aloe with the price 11.50 in an empty table, read it, delete it, read it again:
  201 and 200 with the same body, 200 with the message, and 404, with the error that
  \<^verbatim>\<open>not_found\<close> gives for a str.
\<close>

lemma spec_scenario:
  "run [POST_plants healthy (payload (JStr ''Aloe'') (JStr ''./images/aloe.jpg'') (JStr ''11.50'')),
        GET_plant healthy 1, DELETE_plant healthy 1, GET_plant healthy 1] []
   = ([(POST_plants healthy (payload (JStr ''Aloe'') (JStr ''./images/aloe.jpg'') (JStr ''11.50'')),
        Inr \<lparr>status = 201, content = Object
          [(''id'', Plain (JInt 1)), (''image'', Plain (JStr ''./images/aloe.jpg'')),
           (''name'', Plain (JStr ''Aloe'')), (''price'', Plain (JStr ''11.50''))]\<rparr>),
       (GET_plant healthy 1,
        Inr \<lparr>status = 200, content = Object
          [(''id'', Plain (JInt 1)), (''image'', Plain (JStr ''./images/aloe.jpg'')),
           (''name'', Plain (JStr ''Aloe'')), (''price'', Plain (JStr ''11.50''))]\<rparr>),
       (DELETE_plant healthy 1,
        Inr \<lparr>status = 200, content = Object
          [(''message'', Plain (JStr ''Plant with id 1 successfully deleted''))]\<rparr>),
       (GET_plant healthy 1,
        Inr \<lparr>status = 404, content = Object
          [(''error'', Plain (JStr ''Resource not found''))]\<rparr>)],
      [])"
  by code_simp

end
